theory Spec2Isabelle
  imports Complex_Main
begin

section \<open>The JavaScript runtime the analyzers rely on\<close>

text \<open>
  The analyzers of this repository are string functions: they lower-case a string, look
  for substrings, test regular expressions and do percentage arithmetic. This section
  models the part of the JavaScript runtime they call.

  A JavaScript string is modelled as a \<open>string\<close>, read as a sequence of ASCII characters:
  the case mappings below move the letters a-z and A-Z and leave every other character
  alone. JavaScript numbers that hold scores are modelled as \<open>int\<close>, ratios as \<open>rat\<close>;
  the rounding error of IEEE doubles is not modelled.
\<close>

subsection \<open>Strings\<close>

definition upperLetters :: string where
  "upperLetters = ''ABCDEFGHIJKLMNOPQRSTUVWXYZ''"

definition lowerLetters :: string where
  "lowerLetters = ''abcdefghijklmnopqrstuvwxyz''"

definition digitChars :: string where
  "digitChars = ''0123456789''"

definition isUpperAscii :: "char \<Rightarrow> bool" where
  "isUpperAscii c = (c \<in> set upperLetters)"

definition isLowerAscii :: "char \<Rightarrow> bool" where
  "isLowerAscii c = (c \<in> set lowerLetters)"

definition isDigitChar :: "char \<Rightarrow> bool" where
  "isDigitChar c = (c \<in> set digitChars)"

definition toLowerChar :: "char \<Rightarrow> char" where
  "toLowerChar c = (case map_of (zip upperLetters lowerLetters) c of Some l \<Rightarrow> l | None \<Rightarrow> c)"

definition toUpperChar :: "char \<Rightarrow> char" where
  "toUpperChar c = (case map_of (zip lowerLetters upperLetters) c of Some u \<Rightarrow> u | None \<Rightarrow> c)"

definition toLowerCase :: "string \<Rightarrow> string" where
  "toLowerCase s = map toLowerChar s"

definition toUpperCase :: "string \<Rightarrow> string" where
  "toUpperCase s = map toUpperChar s"

text \<open>\<open>startsWith s p\<close>: the string \<open>s\<close> begins with \<open>p\<close>.\<close>

fun startsWith :: "string \<Rightarrow> string \<Rightarrow> bool" where
  "startsWith s [] = True"
| "startsWith [] (p # ps) = False"
| "startsWith (c # cs) (p # ps) = (c = p \<and> startsWith cs ps)"

text \<open>\<open>String.prototype.includes\<close>: \<open>needle\<close> occurs in \<open>s\<close> as a contiguous substring.\<close>

fun js_includes :: "string \<Rightarrow> string \<Rightarrow> bool" where
  "js_includes [] needle = (needle = [])"
| "js_includes (c # cs) needle = (startsWith (c # cs) needle \<or> js_includes cs needle)"

text \<open>\<open>Array.prototype.join\<close> on an array of strings.\<close>

fun join :: "string \<Rightarrow> string list \<Rightarrow> string" where
  "join sep [] = []"
| "join sep [x] = x"
| "join sep (x # y # ys) = x @ sep @ join sep (y # ys)"

text \<open>\<open>Math.round\<close> rounds to the nearest integer, a tie towards plus infinity.\<close>

definition mathRound :: "rat \<Rightarrow> int" where
  "mathRound x = \<lfloor>x + 1 / 2\<rfloor>"

subsection \<open>Regular expressions\<close>

text \<open>
  The syntax of the regular expressions that occur in the sources: literals, character
  classes (a single character, \<open>A-Z\<close>, \<open>a-z\<close>, \<open>\d\<close> which is also \<open>0-9\<close>, \<open>\s\<close>,
  \<open>\w\<close>), the dot, the anchor \<open>^\<close>, capture groups, sequence, alternation and the
  greedy and lazy star. The other quantifiers are derived below.
\<close>

datatype cclass = CChar char | CUpper | CLower | CDigit | CSpace | CWord

datatype rx =
    Eps
  | Lit char
  | Cls "cclass list"
  | Dot
  | Bol
  | Cap nat rx
  | Seq rx rx
  | Alt rx rx
  | Star rx
  | LazyStar rx

fun inClass :: "cclass \<Rightarrow> char \<Rightarrow> bool" where
  "inClass (CChar d) c = (c = d)"
| "inClass CUpper c = isUpperAscii c"
| "inClass CLower c = isLowerAscii c"
| "inClass CDigit c = isDigitChar c"
| "inClass CSpace c = (c = CHR 0x09 \<or> c = CHR 0x0A \<or> c = CHR 0x0B \<or> c = CHR 0x0C
      \<or> c = CHR 0x0D \<or> c = CHR '' '')"
| "inClass CWord c = (isLowerAscii c \<or> isUpperAscii c \<or> isDigitChar c \<or> c = CHR ''_'')"

text \<open>With the flag \<open>i\<close> a character matches when one of its two cases does.\<close>

definition litMatch :: "bool \<Rightarrow> char \<Rightarrow> char \<Rightarrow> bool" where
  "litMatch ic d c = (c = d \<or> (ic \<and> toUpperChar c = toUpperChar d))"

definition classMatch :: "bool \<Rightarrow> cclass list \<Rightarrow> char \<Rightarrow> bool" where
  "classMatch ic cs c = (list_ex (\<lambda>k. inClass k c) cs
      \<or> (ic \<and> list_ex (\<lambda>k. inClass k (toUpperChar c) \<or> inClass k (toLowerChar c)) cs))"

definition isLineTerminator :: "char \<Rightarrow> bool" where
  "isLineTerminator c = (c = CHR 0x0A \<or> c = CHR 0x0D)"

type_synonym caps = "(nat \<times> string) list"

text \<open>
  The backtracking matcher. \<open>bt ic n r s c\<close> lists, in the order in which the engine
  tries them, the ways in which \<open>r\<close> matches a prefix of \<open>s\<close>: each as the rest of the
  input after the match and the captures so far (the latest binding of a group first).
  \<open>ic\<close> is the flag \<open>i\<close>, \<open>n\<close> the length of the whole input, so that \<open>^\<close> matches
  where the rest still has length \<open>n\<close>. A greedy star tries one more iteration before
  it stops, a lazy one stops first; an iteration that consumes nothing is given up, as
  the engine does.
\<close>

fun bt :: "bool \<Rightarrow> nat \<Rightarrow> rx \<Rightarrow> string \<Rightarrow> caps \<Rightarrow> (string \<times> caps) list" where
  "bt ic n Eps s c = [(s, c)]"
| "bt ic n (Lit d) s c = (case s of [] \<Rightarrow> [] | x # t \<Rightarrow>
      if litMatch ic d x then [(t, c)] else [])"
| "bt ic n (Cls cs) s c = (case s of [] \<Rightarrow> [] | x # t \<Rightarrow>
      if classMatch ic cs x then [(t, c)] else [])"
| "bt ic n Dot s c = (case s of [] \<Rightarrow> [] | x # t \<Rightarrow>
      if isLineTerminator x then [] else [(t, c)])"
| "bt ic n Bol s c = (if length s = n then [(s, c)] else [])"
| "bt ic n (Cap k r) s c =
      map (\<lambda>(s', c'). (s', (k, take (length s - length s') s) # c')) (bt ic n r s c)"
| "bt ic n (Seq a b) s c = concat (map (\<lambda>(s', c'). bt ic n b s' c') (bt ic n a s c))"
| "bt ic n (Alt a b) s c = bt ic n a s c @ bt ic n b s c"
| "bt ic n (Star r) s c =
      concat (map (\<lambda>(s', c'). if length s' < length s then bt ic n (Star r) s' c' else [])
                  (bt ic n r s c)) @ [(s, c)]"
| "bt ic n (LazyStar r) s c =
      (s, c) # concat (map (\<lambda>(s', c'). if length s' < length s then bt ic n (LazyStar r) s' c' else [])
                  (bt ic n r s c))"

text \<open>Derived syntax: a literal word, \<open>r+\<close>, \<open>r?\<close>, \<open>r{k}\<close> and \<open>r{k,k+m}\<close>.\<close>

definition lit :: "string \<Rightarrow> rx" where
  "lit s = foldr (\<lambda>c r. Seq (Lit c) r) s Eps"

definition seqs :: "rx list \<Rightarrow> rx" where
  "seqs rs = foldr Seq rs Eps"

fun alts :: "rx list \<Rightarrow> rx" where
  "alts [] = Eps"
| "alts [r] = r"
| "alts (r # q # rs) = Alt r (alts (q # rs))"

definition rxPlus :: "rx \<Rightarrow> rx" where
  "rxPlus r = Seq r (Star r)"

definition rxOpt :: "rx \<Rightarrow> rx" where
  "rxOpt r = Alt r Eps"

fun rxTimes :: "nat \<Rightarrow> rx \<Rightarrow> rx" where
  "rxTimes 0 r = Eps"
| "rxTimes (Suc k) r = Seq r (rxTimes k r)"

fun rxUpto :: "nat \<Rightarrow> rx \<Rightarrow> rx" where
  "rxUpto 0 r = Eps"
| "rxUpto (Suc k) r = rxOpt (Seq r (rxUpto k r))"

definition rxRep :: "nat \<Rightarrow> nat \<Rightarrow> rx \<Rightarrow> rx" where
  "rxRep k m r = Seq (rxTimes k r) (rxUpto m r)"

abbreviation ws :: rx where "ws \<equiv> Cls [CSpace]"

abbreviation digit :: rx where "digit \<equiv> Cls [CDigit]"

text \<open>
  \<open>search\<close> is the engine's scan: it tries the pattern at the start of the input and
  then one character further, and returns the input from the start of the first match,
  the rest after that match and the captures.
\<close>

fun search :: "bool \<Rightarrow> nat \<Rightarrow> rx \<Rightarrow> string \<Rightarrow> (string \<times> string \<times> caps) option" where
  "search ic n r [] = (case bt ic n r [] [] of [] \<Rightarrow> None | (s', c) # _ \<Rightarrow> Some ([], s', c))"
| "search ic n r (x # t) = (case bt ic n r (x # t) [] of
      [] \<Rightarrow> search ic n r t
    | (s', c) # _ \<Rightarrow> Some (x # t, s', c))"

text \<open>
  A \<open>RegExp\<close> object: its pattern, the flags \<open>i\<close> and \<open>g\<close>, and the mutable property
  \<open>lastIndex\<close>. \<open>regexExec\<close> is \<open>RegExp.prototype.exec\<close>: a global regex starts at
  \<open>lastIndex\<close> and moves it behind the match (or back to 0 when nothing matches), any
  other regex starts at 0 and is left as it is. The result is the index of the match,
  the matched text and the captures, together with the object after the call.
\<close>

record regex =
  pattern :: rx
  ignoreCase :: bool
  global :: bool
  lastIndex :: nat

record matchResult =
  index :: nat
  matched :: string
  groups :: caps

definition regexExec :: "regex \<Rightarrow> string \<Rightarrow> matchResult option \<times> regex" where
  "regexExec r text =
     (let start = (if global r then lastIndex r else 0);
          failed = (if global r then r\<lparr>lastIndex := 0\<rparr> else r)
      in if start > length text then (None, failed)
         else (case search (ignoreCase r) (length text) (pattern r) (drop start text) of
                 None \<Rightarrow> (None, failed)
               | Some (s0, s1, c) \<Rightarrow>
                   (Some \<lparr>index = length text - length s0,
                          matched = take (length s0 - length s1) s0,
                          groups = c\<rparr>,
                    if global r then r\<lparr>lastIndex := length text - length s1\<rparr> else r)))"

text \<open>\<open>RegExp.prototype.test\<close>, with the object after the call.\<close>

definition regexTest :: "regex \<Rightarrow> string \<Rightarrow> bool \<times> regex" where
  "regexTest r text = (case regexExec r text of (m, r') \<Rightarrow> (m \<noteq> None, r'))"

text \<open>
  A regex literal in a function body is a fresh object on every call: \<open>lastIndex\<close> is 0
  and the object is dropped after the call. \<open>rxi p\<close> is the literal \<open>/p/i\<close>, \<open>rxs p\<close>
  is \<open>/p/\<close>, \<open>rxg p\<close> is \<open>/p/g\<close>, and \<open>test\<close> is \<open>.test\<close> on such a literal.
\<close>

definition rxi :: "rx \<Rightarrow> regex" where
  "rxi p = \<lparr>pattern = p, ignoreCase = True, global = False, lastIndex = 0\<rparr>"

definition rxs :: "rx \<Rightarrow> regex" where
  "rxs p = \<lparr>pattern = p, ignoreCase = False, global = False, lastIndex = 0\<rparr>"

definition rxg :: "rx \<Rightarrow> regex" where
  "rxg p = \<lparr>pattern = p, ignoreCase = False, global = True, lastIndex = 0\<rparr>"

definition test :: "regex \<Rightarrow> string \<Rightarrow> bool" where
  "test r text = fst (regexTest r text)"

text \<open>
  \<open>String.prototype.match\<close> with a global regex collects the matched texts from left to
  right: after a match the scan goes on behind it, after an empty match one character
  further. The result is \<open>null\<close> (here \<open>None\<close>) when there is no match.
\<close>

lemma search_length: "search ic n r s = Some (s0, s1, c) \<Longrightarrow> length s0 \<le> length s"
  by (induction s) (auto split: list.splits)

function matchAllFrom :: "bool \<Rightarrow> nat \<Rightarrow> rx \<Rightarrow> string \<Rightarrow> string list" where
  "matchAllFrom ic n r s =
     (case search ic n r s of
        None \<Rightarrow> []
      | Some (s0, s1, c) \<Rightarrow>
          take (length s0 - length s1) s0 #
            (if length s1 < length s0 then matchAllFrom ic n r s1
             else (case s0 of [] \<Rightarrow> [] | x # t \<Rightarrow> matchAllFrom ic n r t)))"
  by pat_completeness auto

termination
  by (relation "measure (\<lambda>(ic, n, r, s). length s)") (auto dest: search_length)

declare matchAllFrom.simps [simp del]

definition matchGlobal :: "regex \<Rightarrow> string \<Rightarrow> string list option" where
  "matchGlobal r text =
     (case matchAllFrom (ignoreCase r) (length text) (pattern r) text of
        [] \<Rightarrow> None
      | m # ms \<Rightarrow> Some (m # ms))"

text \<open>The decimal digits of a number, as a template literal prints an integer.\<close>

definition digitChar :: "nat \<Rightarrow> char" where
  "digitChar d = digitChars ! d"

function showNat :: "nat \<Rightarrow> string" where
  "showNat k = (if k < 10 then [digitChar k] else showNat (k div 10) @ [digitChar (k mod 10)])"
  by pat_completeness auto

termination
  by (relation "measure id") auto

declare showNat.simps [simp del]

definition showInt :: "int \<Rightarrow> string" where
  "showInt i = (if i < 0 then CHR ''-'' # showNat (nat (- i)) else showNat (nat i))"

text \<open>
  What the analyzers take from the engine as it is: the current time in milliseconds,
  its ISO string, the time a date string parses to (\<open>None\<close> for an invalid date, whose
  time value is \<open>NaN\<close>; how \<open>Date\<close> parses a string that is not in ISO format is
  left to the engine), and \<open>Number.prototype.toFixed(1)\<close>, which prints the digits of
  a double.
\<close>

record jsEnv =
  now :: int
  nowISO :: string
  parseDate :: "string \<Rightarrow> int option"
  toFixed1 :: "rat \<Rightarrow> string"

text \<open>
  \<open>String.prototype.match\<close> in general: the array of all matched texts for a global
  regex; for any other regex the matched text followed by the capture groups, a group
  that took no part in the match being \<open>undefined\<close> (here \<open>None\<close>). \<open>arrayAt\<close> reads an
  index of such an array, \<open>undefined\<close> beyond its end.
\<close>

fun capCount :: "rx \<Rightarrow> nat" where
  "capCount (Cap k r) = max k (capCount r)"
| "capCount (Seq a b) = max (capCount a) (capCount b)"
| "capCount (Alt a b) = max (capCount a) (capCount b)"
| "capCount (Star r) = capCount r"
| "capCount (LazyStar r) = capCount r"
| "capCount r = 0"

definition stringMatch :: "string \<Rightarrow> regex \<Rightarrow> string option list option" where
  "stringMatch text r =
     (if global r then map_option (map Some) (matchGlobal r text)
      else (case fst (regexExec r text) of
              None \<Rightarrow> None
            | Some m \<Rightarrow> Some (Some (matched m)
                               # map (\<lambda>k. map_of (groups m) k) [1 ..< Suc (capCount (pattern r))])))"

definition arrayAt :: "'a option list \<Rightarrow> nat \<Rightarrow> 'a option" where
  "arrayAt xs k = (if k < length xs then xs ! k else None)"

text \<open>\<open>a || b\<close> on values that are a string, \<open>null\<close> or \<open>undefined\<close>: the empty string
  is falsy.\<close>

definition jsOr :: "string option \<Rightarrow> string option \<Rightarrow> string option" where
  "jsOr a b = (case a of None \<Rightarrow> b | Some x \<Rightarrow> if x = [] then b else Some x)"

definition truthy :: "string option \<Rightarrow> bool" where
  "truthy a = (case a of None \<Rightarrow> False | Some x \<Rightarrow> x \<noteq> [])"

text \<open>
  \<open>parseFloat\<close> on a text that starts with decimal digits and has no other numeric
  syntax (the only texts it is given here): the number the leading digits denote, and
  \<open>NaN\<close> (here \<open>None\<close>) when there is no leading digit.
\<close>

definition digitValue :: "char \<Rightarrow> nat" where
  "digitValue c = length (takeWhile (\<lambda>d. d \<noteq> c) digitChars)"

definition parseFloatDigits :: "string \<Rightarrow> nat option" where
  "parseFloatDigits s =
     (case takeWhile isDigitChar s of
        [] \<Rightarrow> None
      | d # ds \<Rightarrow> Some (foldl (\<lambda>acc c. 10 * acc + digitValue c) 0 (d # ds)))"

text \<open>
  A property read \<open>obj[key]\<close> on an object literal finds the object's own properties
  and, for the names below, the members inherited from \<open>Object.prototype\<close>. Such a
  member is truthy, so the fallback after \<open>||\<close> is not taken for it.
\<close>

definition objectPrototypeNames :: "string list" where
  "objectPrototypeNames = [''constructor'', ''__defineGetter__'', ''__defineSetter__'',
     ''hasOwnProperty'', ''__lookupGetter__'', ''__lookupSetter__'', ''isPrototypeOf'',
     ''propertyIsEnumerable'', ''toString'', ''valueOf'', ''__proto__'', ''toLocaleString'']"

datatype jsError = TypeError

section \<open>function-app.js: DocumentAnalyzer\<close>

subsection \<open>The document-type table\<close>

record rules =
  maxAge :: nat
  requiredSignatures :: "string list"

record 'r docConfig =
  requiredFields :: "string list"
  validityRules :: 'r

definition fa_aps :: "rules docConfig" where
  "fa_aps = \<lparr>requiredFields = [''purchasePrice'', ''closingDate'', ''buyerName'', ''sellerName'',
                ''propertyAddress'', ''depositAmount''],
             validityRules = \<lparr>maxAge = 365, requiredSignatures = [''buyer'', ''seller'']\<rparr>\<rparr>"

definition fa_lease :: "rules docConfig" where
  "fa_lease = \<lparr>requiredFields = [''rentAmount'', ''leaseStartDate'', ''leaseEndDate'', ''tenantName'',
                ''landlordName'', ''propertyAddress''],
               validityRules = \<lparr>maxAge = 365, requiredSignatures = [''tenant'', ''landlord'']\<rparr>\<rparr>"

definition fa_ltb :: "rules docConfig" where
  "fa_ltb = \<lparr>requiredFields = [''formNumber'', ''tenantName'', ''landlordName'', ''propertyAddress'',
                ''issueDate''],
             validityRules = \<lparr>maxAge = 30, requiredSignatures = [''applicant'']\<rparr>\<rparr>"

definition fa_documentTypes :: "(string \<times> rules docConfig) list" where
  "fa_documentTypes = [
     (''Agreement of Purchase and Sale (APS)'', fa_aps),
     (''Residential Lease Agreement'', fa_lease),
     (''Landlord and Tenant Board Form'', fa_ltb)]"

text \<open>
  \<open>this.documentTypes[documentType] || this.documentTypes['Agreement of Purchase and Sale (APS)']\<close>:
  the profile of a known type, the APS profile for an unknown one, and \<open>None\<close> for a name
  inherited from \<open>Object.prototype\<close>, whose value has neither \<open>requiredFields\<close> nor
  \<open>validityRules\<close>.
\<close>

definition fa_docConfig :: "string \<Rightarrow> rules docConfig option" where
  "fa_docConfig docType =
     (case map_of fa_documentTypes docType of
        Some cfg \<Rightarrow> Some cfg
      | None \<Rightarrow> if docType \<in> set objectPrototypeNames then None else Some fa_aps)"

subsection \<open>Function 1: field completeness\<close>

definition fa_fieldPatterns :: "(string \<times> regex) list" where
  "fa_fieldPatterns = [
     (''purchasePrice'', rxi (Alt (Seq (Lit CHR ''$'') (rxPlus (Cls [CDigit, CChar CHR '',''])))
                                 (seqs [lit ''purchase'', Star ws, lit ''price'']))),
     (''closingDate'', rxi (Alt (seqs [lit ''closing'', Star ws, lit ''date''])
                               (seqs [lit ''closes'', Star ws, lit ''on'']))),
     (''buyerName'', rxi (Alt (lit ''buyer'') (lit ''purchaser''))),
     (''sellerName'', rxi (Alt (lit ''seller'') (lit ''vendor''))),
     (''propertyAddress'', rxi (Alt (lit ''address'') (seqs [lit ''property'', Star ws, lit ''located'']))),
     (''depositAmount'', rxi (Alt (lit ''deposit'') (seqs [lit ''down'', Star ws, lit ''payment'']))),
     (''rentAmount'', rxi (Alt (lit ''rent'') (seqs [lit ''rental'', Star ws, lit ''amount'']))),
     (''leaseStartDate'', rxi (Alt (seqs [lit ''lease'', Star ws, lit ''start'']) (lit ''commencing''))),
     (''leaseEndDate'', rxi (Alt (seqs [lit ''lease'', Star ws, lit ''end'']) (lit ''expiring''))),
     (''tenantName'', rxi (Alt (lit ''tenant'') (lit ''lessee''))),
     (''landlordName'', rxi (Alt (lit ''landlord'') (lit ''lessor''))),
     (''formNumber'', rxs (Alt (seqs [lit ''form'', Star ws, Cls [CChar CHR ''n'', CChar CHR ''N'',
                                        CChar CHR ''t'', CChar CHR ''T''], rxPlus digit])
                              (seqs [Bol, Cls [CChar CHR ''n'', CChar CHR ''N'',
                                        CChar CHR ''t'', CChar CHR ''T''], rxPlus digit]))),
     (''issueDate'', rxi (Alt (seqs [lit ''issue'', Star ws, lit ''date'']) (lit ''dated'')))]"

text \<open>\<open>isFieldPresent\<close>, for the field names of the document-type table: none of them
  is a name inherited from \<open>Object.prototype\<close>.\<close>

definition fa_isFieldPresent :: "string \<Rightarrow> string \<Rightarrow> bool" where
  "fa_isFieldPresent text fieldName =
     (case map_of fa_fieldPatterns fieldName of Some p \<Rightarrow> test p text | None \<Rightarrow> False)"

record scored =
  status :: string
  score :: int

record completeness = scored +
  missingRequired :: "string list"
  presentRequired :: "string list"

text \<open>The loop over the required fields.\<close>

fun fa_checkFields :: "string \<Rightarrow> string list \<Rightarrow> completeness \<Rightarrow> completeness" where
  "fa_checkFields text [] st = st"
| "fa_checkFields text (field # rest) st =
     fa_checkFields text rest
       (if fa_isFieldPresent text field
        then st\<lparr>presentRequired := presentRequired st @ [field]\<rparr>
        else st\<lparr>missingRequired := missingRequired st @ [field]\<rparr>)"

text \<open>The status buckets of the completeness score.\<close>

definition fa_completenessStatus :: "int \<Rightarrow> string" where
  "fa_completenessStatus sc =
     (if sc \<ge> 90 then ''Complete''
      else if sc \<ge> 70 then ''Mostly Complete''
      else if sc \<ge> 50 then ''Partially Complete''
      else ''Incomplete'')"

text \<open>
  The body of \<open>checkFieldCompleteness\<close> once the profile is found. The value returned
  by the source wraps this record in an object with the single property \<open>completeness\<close>.
\<close>

definition fa_fieldCompleteness :: "rules docConfig \<Rightarrow> string \<Rightarrow> completeness" where
  "fa_fieldCompleteness docCfg documentText =
     (let st0 = \<lparr>status = ''Incomplete'', score = 0, missingRequired = [], presentRequired = []\<rparr>;
          st1 = fa_checkFields documentText (requiredFields docCfg) st0;
          st2 = st1\<lparr>score := mathRound
                   ((of_nat (length (presentRequired st1)) / of_nat (length (requiredFields docCfg))) * 100)\<rparr>
      in st2\<lparr>status := fa_completenessStatus (score st2)\<rparr>)"

text \<open>
  For a name inherited from \<open>Object.prototype\<close> the loop \<open>for (const field of undefined)\<close>
  throws a \<open>TypeError\<close>.
\<close>

definition fa_checkFieldCompleteness :: "string \<Rightarrow> string \<Rightarrow> jsError + completeness" where
  "fa_checkFieldCompleteness documentText docType =
     (case fa_docConfig docType of
        None \<Rightarrow> Inl TypeError
      | Some docCfg \<Rightarrow> Inr (fa_fieldCompleteness docCfg documentText))"

subsection \<open>Function 2: document type from the file name\<close>

record typed =
  documentType :: string
  confidence :: rat

record classification = typed +
  jurisdiction :: string

definition fa_identifyDocumentType :: "string \<Rightarrow> string \<Rightarrow> classification" where
  "fa_identifyDocumentType documentText filename =
     (let filename_lower = toLowerCase filename in
      if js_includes filename_lower ''purchase'' \<or> js_includes filename_lower ''sale''
           \<or> js_includes filename_lower ''aps''
      then \<lparr>documentType = ''Agreement of Purchase and Sale (APS)'', confidence = 90 / 100,
             jurisdiction = ''Ontario''\<rparr>
      else if js_includes filename_lower ''lease'' \<or> js_includes filename_lower ''rental''
      then \<lparr>documentType = ''Residential Lease Agreement'', confidence = 85 / 100,
             jurisdiction = ''Ontario''\<rparr>
      else if js_includes filename_lower ''n1'' \<or> js_includes filename_lower ''n4''
           \<or> js_includes filename_lower ''ltb''
      then \<lparr>documentType = ''Landlord and Tenant Board Form'', confidence = 88 / 100,
             jurisdiction = ''Ontario''\<rparr>
      else \<lparr>documentType = ''Legal Document'', confidence = 60 / 100, jurisdiction = ''Ontario''\<rparr>)"

subsection \<open>Function 3: validity\<close>

definition fa_signaturePatterns :: "(string \<times> regex) list" where
  "fa_signaturePatterns = [
     (''buyer'', rxi (Alt (seqs [lit ''buyer'', Star ws, lit ''signature''])
                         (seqs [lit ''signed'', Star ws, lit ''by'', Star ws, lit ''buyer'']))),
     (''seller'', rxi (Alt (seqs [lit ''seller'', Star ws, lit ''signature''])
                          (seqs [lit ''signed'', Star ws, lit ''by'', Star ws, lit ''seller'']))),
     (''tenant'', rxi (Alt (seqs [lit ''tenant'', Star ws, lit ''signature''])
                          (seqs [lit ''signed'', Star ws, lit ''by'', Star ws, lit ''tenant'']))),
     (''landlord'', rxi (Alt (seqs [lit ''landlord'', Star ws, lit ''signature''])
                            (seqs [lit ''signed'', Star ws, lit ''by'', Star ws, lit ''landlord'']))),
     (''applicant'', rxi (Alt (seqs [lit ''applicant'', Star ws, lit ''signature''])
                             (seqs [lit ''signed'', Star ws, lit ''by'', Star ws, lit ''applicant''])))]"

text \<open>\<open>checkSignature\<close>, for the signature roles of the document-type table: none of
  them is a name inherited from \<open>Object.prototype\<close>.\<close>

definition fa_checkSignature :: "string \<Rightarrow> string \<Rightarrow> bool" where
  "fa_checkSignature text signatureType =
     (case map_of fa_signaturePatterns (toLowerCase signatureType) of
        Some p \<Rightarrow> test p text
      | None \<Rightarrow> False)"

record validityCheck = scored +
  issues :: "string list"
  warnings :: "string list"

text \<open>A number of days: \<open>null\<close>, \<open>NaN\<close> or an integer.\<close>

datatype days = Null | NaN | Days int

record fa_validityCheck = validityCheck +
  isExpired :: bool
  ageInDays :: days

text \<open>The loop over the required signatures.\<close>

fun fa_checkSignatures :: "string \<Rightarrow> string list \<Rightarrow> fa_validityCheck \<Rightarrow> fa_validityCheck" where
  "fa_checkSignatures text [] v = v"
| "fa_checkSignatures text (sig # sigs) v =
     fa_checkSignatures text sigs
       (if \<not> fa_checkSignature text sig
        then v\<lparr>issues := issues v @ [''Missing required signature: '' @ sig],
               score := score v - 20\<rparr>
        else v)"

definition fa_hasDate :: "string \<Rightarrow> bool" where
  "fa_hasDate documentText =
     test (rxi (alts [lit ''date'', lit ''dated'', lit ''created'', lit ''issued''])) documentText"

text \<open>The result as it is before the checks.\<close>

definition fa_initialCheck :: fa_validityCheck where
  "fa_initialCheck = \<lparr>status = ''Valid'', score = 100, issues = [], warnings = [],
                        isExpired = False, ageInDays = Null\<rparr>"

definition fa_validity :: "rules docConfig \<Rightarrow> string \<Rightarrow> fa_validityCheck" where
  "fa_validity docCfg documentText =
     (let v0 = fa_initialCheck;
          v1 = fa_checkSignatures documentText (requiredSignatures (validityRules docCfg)) v0;
          v2 = (if \<not> fa_hasDate documentText
                then v1\<lparr>warnings := warnings v1 @ [''No date found in document''],
                        score := score v1 - 10\<rparr>
                else v1)
      in if score v2 < 80 then v2\<lparr>status := ''Potentially Invalid''\<rparr>
         else if length (issues v2) > 0 then v2\<lparr>status := ''Valid with Issues''\<rparr>
         else v2)"

text \<open>
  For a name inherited from \<open>Object.prototype\<close> the read
  \<open>validityRules.requiredSignatures\<close> of \<open>undefined\<close> throws a \<open>TypeError\<close>.
\<close>

definition fa_checkDocumentValidity :: "string \<Rightarrow> string \<Rightarrow> jsError + fa_validityCheck" where
  "fa_checkDocumentValidity documentText docType =
     (case fa_docConfig docType of
        None \<Rightarrow> Inl TypeError
      | Some docCfg \<Rightarrow> Inr (fa_validity docCfg documentText))"

section \<open>ai-document-analyzer.js: AIDocumentAnalyzer\<close>

subsection \<open>The document pattern database\<close>

text \<open>
  A profile of the database: the indicator phrases, the regular expressions (objects
  the analyzer keeps and tests on every classification), the required fields, the
  document type and its description.
\<close>

record docPattern =
  visualIndicators :: "string list"
  textPatterns :: "regex list"
  patRequiredFields :: "string list"
  patDocumentType :: string
  patDescription :: string

text \<open>Pieces that recur in the patterns: words separated by \<open>\s+\<close>, the separator
  \<open>\s*:?\s*\<close>, an amount \<open>\$?[\d,]+\<close> and a date \<open>\d{1,2}\/\d{1,2}\/\d{4}\<close>.\<close>

fun phrase :: "string list \<Rightarrow> rx" where
  "phrase [] = Eps"
| "phrase [w] = lit w"
| "phrase (w # v # vs) = Seq (lit w) (Seq (rxPlus ws) (phrase (v # vs)))"

definition labelSep :: rx where
  "labelSep = seqs [Star ws, rxOpt (Lit CHR '':''), Star ws]"

definition amount :: rx where
  "amount = Seq (rxOpt (Lit CHR ''$'')) (rxPlus (Cls [CDigit, CChar CHR '','']))"

definition slashDate :: rx where
  "slashDate = seqs [rxRep 1 1 digit, Lit CHR ''/'', rxRep 1 1 digit, Lit CHR ''/'', rxTimes 4 digit]"

definition ai_apsPattern :: docPattern where
  "ai_apsPattern = \<lparr>
     visualIndicators = [''AGREEMENT OF PURCHASE AND SALE'', ''PURCHASE PRICE'', ''CLOSING DATE'',
        ''DEPOSIT'', ''BUYER'', ''SELLER'', ''PROPERTY ADDRESS''],
     textPatterns = [
        rxi (seqs [phrase [''purchase'', ''price''], labelSep, amount]),
        rxi (seqs [phrase [''closing'', ''date''], labelSep, slashDate]),
        rxi (seqs [phrase [''deposit'', ''amount''], labelSep, amount]),
        rxi (seqs [lit ''between'', rxPlus ws, LazyStar Dot, rxPlus ws, lit ''(buyer)'', rxPlus ws,
                   lit ''and'', rxPlus ws, LazyStar Dot, rxPlus ws, lit ''(seller)''])],
     patRequiredFields = [''purchasePrice'', ''closingDate'', ''buyerName'', ''sellerName'',
        ''propertyAddress'', ''depositAmount'', ''irrevocableDate''],
     patDocumentType = ''Agreement of Purchase and Sale (APS)'',
     patDescription = ''Legal contract for real estate transactions outlining purchase terms, conditions, and closing details.''\<rparr>"

definition ai_a2Pattern :: docPattern where
  "ai_a2Pattern = \<lparr>
     visualIndicators = [''APPLICATION TO INCREASE RENT'', ''LANDLORD AND TENANT BOARD'', ''FORM A2'',
        ''RENT INCREASE'', ''ABOVE GUIDELINE''],
     textPatterns = [
        rxi (phrase [''application'', ''to'', ''increase'', ''rent'']),
        rxi (phrase [''form'', ''a2'']),
        rxi (phrase [''landlord'', ''and'', ''tenant'', ''board'']),
        rxi (phrase [''above'', ''guideline'', ''increase''])],
     patRequiredFields = [''landlordName'', ''tenantName'', ''propertyAddress'', ''currentRent'',
        ''proposedRent'', ''increaseReason'', ''applicationDate''],
     patDocumentType = ''A2 Form (Landlord and Tenant Board)'',
     patDescription = ''LTB application form for rent increases above guideline, requiring board approval.''\<rparr>"

definition ai_l1Pattern :: docPattern where
  "ai_l1Pattern = \<lparr>
     visualIndicators = [''APPLICATION TO TERMINATE A TENANCY'', ''FORM L1'',
        ''LANDLORD AND TENANT BOARD'', ''EVICTION''],
     textPatterns = [
        rxi (phrase [''application'', ''to'', ''terminate'', ''a'', ''tenancy'']),
        rxi (phrase [''form'', ''l1'']),
        rxi (lit ''eviction'')],
     patRequiredFields = [''landlordName'', ''tenantName'', ''propertyAddress'', ''terminationReason'',
        ''noticeDate'', ''hearingDate''],
     patDocumentType = ''L1 Form (Landlord and Tenant Board)'',
     patDescription = ''LTB application form for terminating tenancy and eviction proceedings.''\<rparr>"

definition ai_leasePattern :: docPattern where
  "ai_leasePattern = \<lparr>
     visualIndicators = [''RESIDENTIAL LEASE AGREEMENT'', ''TENANT'', ''LANDLORD'', ''RENT'',
        ''LEASE TERM'', ''SECURITY DEPOSIT''],
     textPatterns = [
        rxi (phrase [''residential'', ''lease'', ''agreement'']),
        rxi (seqs [phrase [''monthly'', ''rent''], labelSep, amount]),
        rxi (seqs [phrase [''lease'', ''term''], labelSep, rxPlus digit, rxPlus ws, lit ''month'',
                   rxOpt (Lit CHR ''s'')]),
        rxi (seqs [phrase [''security'', ''deposit''], labelSep, amount])],
     patRequiredFields = [''tenantName'', ''landlordName'', ''propertyAddress'', ''monthlyRent'',
        ''leaseStartDate'', ''leaseEndDate'', ''securityDeposit''],
     patDocumentType = ''Residential Lease Agreement'',
     patDescription = ''Legal contract between landlord and tenant for residential property rental.''\<rparr>"

definition ai_mortgagePattern :: docPattern where
  "ai_mortgagePattern = \<lparr>
     visualIndicators = [''MORTGAGE'', ''PRINCIPAL AMOUNT'', ''INTEREST RATE'', ''AMORTIZATION'',
        ''LENDER''],
     textPatterns = [
        rxi (phrase [''mortgage'', ''agreement'']),
        rxi (seqs [phrase [''principal'', ''amount''], labelSep, amount]),
        rxi (seqs [phrase [''interest'', ''rate''], labelSep,
                   rxPlus (Cls [CDigit, CChar CHR ''.'']), Lit CHR ''%'']),
        rxi (seqs [phrase [''amortization'', ''period''], labelSep, rxPlus digit, rxPlus ws,
                   lit ''year'', rxOpt (Lit CHR ''s'')])],
     patRequiredFields = [''borrowerName'', ''lenderName'', ''propertyAddress'', ''principalAmount'',
        ''interestRate'', ''amortizationPeriod'', ''monthlyPayment''],
     patDocumentType = ''Mortgage Document'',
     patDescription = ''Legal contract securing a loan with real estate property as collateral.''\<rparr>"

definition ai_insurancePattern :: docPattern where
  "ai_insurancePattern = \<lparr>
     visualIndicators = [''INSURANCE POLICY'', ''POLICY NUMBER'', ''COVERAGE'', ''PREMIUM'',
        ''DEDUCTIBLE''],
     textPatterns = [
        rxi (phrase [''insurance'', ''policy'']),
        rxi (seqs [phrase [''policy'', ''number''], labelSep,
                   rxPlus (Cls [CWord, CDigit, CChar CHR ''-''])]),
        rxi (seqs [phrase [''coverage'', ''amount''], labelSep, amount]),
        rxi (seqs [phrase [''annual'', ''premium''], labelSep, amount])],
     patRequiredFields = [''policyNumber'', ''insuredName'', ''coverageType'', ''coverageAmount'',
        ''premiumAmount'', ''effectiveDate'', ''expirationDate''],
     patDocumentType = ''Insurance Policy'',
     patDescription = ''Contract providing financial protection against specified risks.''\<rparr>"

text \<open>\<open>initializeDocumentDatabase\<close>: the \<open>Map\<close> in its insertion order.\<close>

definition initializeDocumentDatabase :: "(string \<times> docPattern) list" where
  "initializeDocumentDatabase = [
     (''Agreement of Purchase and Sale'', ai_apsPattern),
     (''A2 Form'', ai_a2Pattern),
     (''L1 Form'', ai_l1Pattern),
     (''Residential Lease'', ai_leasePattern),
     (''Mortgage Document'', ai_mortgagePattern),
     (''Insurance Policy'', ai_insurancePattern)]"

subsection \<open>The analyzer object\<close>

record ai_classification = typed +
  description :: string

record analysisRecord =
  h_filename :: string
  h_classification :: ai_classification
  h_completeness :: completeness
  h_validity :: validityCheck
  h_timestamp :: string

record analyzer =
  documentPatterns :: "(string \<times> docPattern) list"
  fieldPatterns :: "(string \<times> regex list) list"
  learningHistory :: "analysisRecord list"
  confidenceThreshold :: rat

text \<open>The constructor.\<close>

definition newAnalyzer :: analyzer where
  "newAnalyzer = \<lparr>documentPatterns = initializeDocumentDatabase, fieldPatterns = [],
                   learningHistory = [], confidenceThreshold = 7 / 10\<rparr>"

subsection \<open>Classification\<close>

text \<open>
  The loop over the regular expressions of a profile: the number of those that match,
  and the regex objects after the tests.
\<close>

fun ai_testPatterns :: "regex list \<Rightarrow> string \<Rightarrow> nat \<times> regex list" where
  "ai_testPatterns [] text = (0, [])"
| "ai_testPatterns (r # rs) text =
     (case regexTest r text of (b, r') \<Rightarrow>
        (case ai_testPatterns rs text of (k, rs') \<Rightarrow> ((if b then 1 else 0) + k, r' # rs')))"

text \<open>\<open>indicator.toLowerCase().replace(/\s+/g, '')\<close>\<close>

definition removeWhitespace :: "string \<Rightarrow> string" where
  "removeWhitespace s = filter (\<lambda>c. \<not> inClass CSpace c) s"

definition ai_filenameMatches :: "docPattern \<Rightarrow> string \<Rightarrow> bool" where
  "ai_filenameMatches pat filename =
     list_ex (\<lambda>indicator. js_includes (toLowerCase filename) (removeWhitespace (toLowerCase indicator)))
       (visualIndicators pat)"

text \<open>One turn of the loop over the profiles: the confidence of the profile, and the
  profile with its regex objects after the tests.\<close>

definition ai_matchPattern :: "docPattern \<Rightarrow> string \<Rightarrow> string \<Rightarrow> rat \<times> docPattern" where
  "ai_matchPattern pat documentText filename =
     (let indicatorHits = length (filter (\<lambda>indicator. js_includes (toUpperCase documentText) indicator)
                                    (visualIndicators pat))
      in case ai_testPatterns (textPatterns pat) documentText of (regexHits, rs') \<Rightarrow>
        (let totalChecks = length (visualIndicators pat) + length (textPatterns pat);
             sc = of_nat indicatorHits + of_nat regexHits
                    + (if ai_filenameMatches pat filename then 1 / 2 else 0);
             conf = (if totalChecks > 0 then sc / of_nat totalChecks else 0)
         in (conf, pat\<lparr>textPatterns := rs'\<rparr>)))"

fun ai_classifyLoop :: "(string \<times> docPattern) list \<Rightarrow> string \<Rightarrow> string \<Rightarrow> ai_classification
    \<Rightarrow> ai_classification \<times> (string \<times> docPattern) list" where
  "ai_classifyLoop [] documentText filename bestMatch = (bestMatch, [])"
| "ai_classifyLoop ((name, pat) # ps) documentText filename bestMatch =
     (case ai_matchPattern pat documentText filename of (conf, pat') \<Rightarrow>
        (case ai_classifyLoop ps documentText filename
                (if conf > confidence bestMatch
                 then \<lparr>documentType = patDocumentType pat, confidence = min conf 1,
                        description = patDescription pat\<rparr>
                 else bestMatch)
         of (res, ps') \<Rightarrow> (res, (name, pat') # ps')))"

definition ai_unknown :: ai_classification where
  "ai_unknown = \<lparr>documentType = ''Unknown Document'', confidence = 0,
                  description = ''Unable to determine document type''\<rparr>"

text \<open>\<open>classifyDocument\<close>: the best match, and the analyzer after the call.\<close>

definition ai_classifyDocument :: "analyzer \<Rightarrow> string \<Rightarrow> string \<Rightarrow> ai_classification \<times> analyzer" where
  "ai_classifyDocument a documentText filename =
     (case ai_classifyLoop (documentPatterns a) documentText filename ai_unknown of
        (bestMatch, ps') \<Rightarrow> (bestMatch, a\<lparr>documentPatterns := ps'\<rparr>))"

subsection \<open>Field completeness\<close>

definition nameTail :: rx where
  "nameTail = Cap 1 (rxPlus (Cls [CUpper, CLower, CSpace]))"

definition addressTail :: rx where
  "addressTail = Cap 1 (rxPlus (Cls [CUpper, CLower, CDigit, CSpace,
       CChar CHR '','', CChar CHR ''.'', CChar CHR ''-'']))"

definition ai_fieldPatternTable :: "(string \<times> regex list) list" where
  "ai_fieldPatternTable = [
     (''purchasePrice'', [rxi (Seq amount (rxOpt (Seq (Lit CHR ''.'') (rxTimes 2 digit)))),
                           rxi (seqs [phrase [''purchase'', ''price''], labelSep, amount])]),
     (''closingDate'', [rxi slashDate,
                         rxi (seqs [phrase [''closing'', ''date''], labelSep, slashDate])]),
     (''buyerName'', [rxi (seqs [lit ''buyer'', labelSep, nameTail]),
                       rxi (seqs [lit ''purchaser'', labelSep, nameTail])]),
     (''sellerName'', [rxi (seqs [lit ''seller'', labelSep, nameTail]),
                        rxi (seqs [lit ''vendor'', labelSep, nameTail])]),
     (''propertyAddress'', [rxi (seqs [phrase [''property'', ''address''], labelSep, addressTail]),
                             rxi (seqs [lit ''premises'', labelSep, addressTail])]),
     (''depositAmount'', [rxi (seqs [lit ''deposit'', labelSep, amount]),
                           rxi (seqs [phrase [''earnest'', ''money''], labelSep, amount])]),
     (''monthlyRent'', [rxi (seqs [phrase [''monthly'', ''rent''], labelSep, amount]),
                         rxi (seqs [lit ''rent'', labelSep, amount])]),
     (''landlordName'', [rxi (seqs [lit ''landlord'', labelSep, nameTail]),
                          rxi (seqs [lit ''lessor'', labelSep, nameTail])]),
     (''tenantName'', [rxi (seqs [lit ''tenant'', labelSep, nameTail]),
                        rxi (seqs [lit ''lessee'', labelSep, nameTail])])]"

text \<open>\<open>getFieldPatterns\<close>: the patterns of a field, or the default \<open>[/.*/i]\<close>, for
  field names that are not inherited from \<open>Object.prototype\<close>, as all those of the
  database are. For an inherited name the source finds a member of \<open>Object.prototype\<close>,
  which is truthy and not iterable, and the loop over the patterns throws; the properties
  below are stated for names that are not inherited.\<close>

definition getFieldPatterns :: "string \<Rightarrow> regex list" where
  "getFieldPatterns fieldName =
     (case map_of ai_fieldPatternTable fieldName of
        Some ps \<Rightarrow> ps
      | None \<Rightarrow> [rxi (Star Dot)])"

definition ai_fieldFound :: "string \<Rightarrow> string \<Rightarrow> bool" where
  "ai_fieldFound documentText field = list_ex (\<lambda>p. test p documentText) (getFieldPatterns field)"

text \<open>The loop over the required fields: the present and the missing ones.\<close>

fun ai_checkFields :: "string \<Rightarrow> string list \<Rightarrow> string list \<times> string list
    \<Rightarrow> string list \<times> string list" where
  "ai_checkFields documentText [] (presentFields, missingFields) = (presentFields, missingFields)"
| "ai_checkFields documentText (field # rest) (presentFields, missingFields) =
     ai_checkFields documentText rest
       (if ai_fieldFound documentText field
        then (presentFields @ [field], missingFields)
        else (presentFields, missingFields @ [field]))"

definition ai_completenessStatus :: "rat \<Rightarrow> string" where
  "ai_completenessStatus sc =
     (if sc < 50 then ''Incomplete''
      else if sc < 80 then ''Partially Complete''
      else if sc < 100 then ''Mostly Complete''
      else ''Complete'')"

text \<open>
  \<open>analyzeFieldCompleteness\<close>. The percentage \<open>present / required * 100\<close> is an exact
  fraction here and a double in the source. The two give the same rounded score and the
  same status for the profiles of the database, which have 5, 6 or 7 required fields: the
  only percentages on a threshold are 50, 80 and 100, which the doubles reach exactly or
  from above, and none is near a half. They differ for other profiles (23 of 40 is 57.5
  here and just below it in doubles), and a profile without required fields gives \<open>NaN\<close>
  in the source and 0 here; the theorems on the score and the status are stated for the
  database of the constructor.
\<close>

definition ai_analyzeFieldCompleteness :: "analyzer \<Rightarrow> string \<Rightarrow> string \<Rightarrow> completeness" where
  "ai_analyzeFieldCompleteness a documentText docType =
     (case find (\<lambda>p. patDocumentType p = docType) (map snd (documentPatterns a)) of
        None \<Rightarrow> \<lparr>status = ''Unknown Document Type'', score = 0,
                  missingRequired = [], presentRequired = []\<rparr>
      | Some pat \<Rightarrow>
          (case ai_checkFields documentText (patRequiredFields pat) ([], []) of
             (presentFields, missingFields) \<Rightarrow>
               (let sc = of_nat (length presentFields) / of_nat (length (patRequiredFields pat)) * 100
                in \<lparr>status = ai_completenessStatus sc, score = mathRound sc,
                     missingRequired = missingFields, presentRequired = presentFields\<rparr>)))"

subsection \<open>Validity\<close>

definition ai_isDocumentExpired :: "jsEnv \<Rightarrow> string \<Rightarrow> bool" where
  "ai_isDocumentExpired env documentText =
     (case matchGlobal (rxg slashDate) documentText of
        None \<Rightarrow> False
      | Some dates \<Rightarrow>
          list_ex (\<lambda>dateStr. case parseDate env dateStr of
                                None \<Rightarrow> False
                              | Some t \<Rightarrow> t < now env) dates)"

definition ai_hasMissingSignatures :: "string \<Rightarrow> bool" where
  "ai_hasMissingSignatures documentText =
     (\<not> list_ex (\<lambda>p. test p documentText)
          [rxi (lit ''signature''), rxi (lit ''signed''), rxi (lit ''witness'')])"

definition ai_hasIncompleteSections :: "string \<Rightarrow> bool" where
  "ai_hasIncompleteSections documentText =
     list_ex (\<lambda>p. test p documentText)
       [rxg (seqs [Lit CHR ''['', LazyStar Dot, Lit CHR '']'']),
        rxg (seqs [Lit CHR ''_'', Lit CHR ''_'', rxPlus (Lit CHR ''_'')]),
        rxi (lit ''to be completed''),
        rxi (lit ''tbd'')]"

definition ai_analyzeValidity :: "jsEnv \<Rightarrow> string \<Rightarrow> string \<Rightarrow> validityCheck" where
  "ai_analyzeValidity env documentText docType =
     (let expired = ai_isDocumentExpired env documentText;
          unsigned = ai_hasMissingSignatures documentText;
          incomplete = ai_hasIncompleteSections documentText;
          issues1 = (if expired then [''Document appears to be expired''] else []);
          score1 = (if expired then 100 - 30 else 100);
          issues2 = (if unsigned then issues1 @ [''Required signatures may be missing''] else issues1);
          score2 = (if unsigned then score1 - 20 else score1);
          warnings3 = (if incomplete then [''Some sections appear incomplete''] else []);
          score3 = (if incomplete then score2 - 10 else score2);
          st = (if length issues2 > 0 then ''Invalid''
                else if length warnings3 > 0 then ''Valid with Warnings''
                else ''Valid'')
      in \<lparr>status = st, score = max 0 score3, issues = issues2, warnings = warnings3\<rparr>)"

subsection \<open>The whole analysis\<close>

text \<open>\<open>extractTextFromFile\<close> is a mock: the text depends on the name of the file only.\<close>

definition nl :: string where
  "nl = CHR 0x0A # ''            ''"

definition ai_extractTextFromFile :: "string \<Rightarrow> string" where
  "ai_extractTextFromFile fileName =
     (let filename = toLowerCase fileName in
      if js_includes filename ''aps'' \<or> js_includes filename ''purchase'' then
        ''AGREEMENT OF PURCHASE AND SALE'' @ nl
        @ ''This agreement is made between John Doe (Buyer) and Jane Smith (Seller)'' @ nl
        @ ''Purchase Price: $750,000'' @ nl
        @ ''Closing Date: 06/15/2024'' @ nl
        @ ''Property Address: 123 Main Street, Toronto, ON'' @ nl
        @ ''Deposit Amount: $37,500''
      else if js_includes filename ''a2'' then
        ''APPLICATION TO INCREASE RENT'' @ nl
        @ ''FORM A2'' @ nl
        @ ''Landlord and Tenant Board'' @ nl
        @ ''Landlord: ABC Properties'' @ nl
        @ ''Tenant: John Smith'' @ nl
        @ ''Property Address: 456 Oak Street'' @ nl
        @ ''Current Rent: $2,000'' @ nl
        @ ''Proposed Rent: $2,200''
      else if js_includes filename ''lease'' then
        ''RESIDENTIAL LEASE AGREEMENT'' @ nl
        @ ''Tenant: John Doe'' @ nl
        @ ''Landlord: Jane Smith'' @ nl
        @ ''Property Address: 789 Pine Street'' @ nl
        @ ''Monthly Rent: $2,500'' @ nl
        @ ''Lease Term: 12 months'' @ nl
        @ ''Security Deposit: $2,500''
      else ''Document content not available'')"

definition ai_detectJurisdiction :: "string \<Rightarrow> string" where
  "ai_detectJurisdiction documentText =
     (if js_includes documentText ''Ontario'' \<or> js_includes documentText ''ON'' then ''Ontario''
      else if js_includes documentText ''British Columbia'' \<or> js_includes documentText ''BC''
      then ''British Columbia''
      else if js_includes documentText ''Alberta'' \<or> js_includes documentText ''AB'' then ''Alberta''
      else ''Unknown'')"

definition ai_extractDate :: "string \<Rightarrow> string \<Rightarrow> string" where
  "ai_extractDate documentText kind =
     (case matchGlobal (rxg slashDate) documentText of
        None \<Rightarrow> ''N/A''
      | Some dates \<Rightarrow> hd dates)"

definition ai_determineValidityStatus :: "validityCheck \<Rightarrow> string" where
  "ai_determineValidityStatus validity =
     (if length (issues validity) > 0 then ''Invalid''
      else if length (warnings validity) > 0 then ''Valid with Issues''
      else ''Valid'')"

definition ai_generateReasons :: "completeness \<Rightarrow> validityCheck \<Rightarrow> string list" where
  "ai_generateReasons compl validity =
     (if score compl = 100 then [''All required fields are present and complete'']
      else [''Document completeness: '' @ showInt (score compl) @ ''%''])
     @ (if length (issues validity) > 0 then issues validity else [])
     @ (if length (warnings validity) > 0 then warnings validity else [])"

definition ai_generateSuggestedActions :: "completeness \<Rightarrow> validityCheck \<Rightarrow> string list" where
  "ai_generateSuggestedActions compl validity =
     (let actions =
         (if length (missingRequired compl) > 0
          then [''Complete missing fields: '' @ join '', '' (missingRequired compl)] else [])
         @ (if length (issues validity) > 0 then [''Address validity issues before proceeding''] else [])
      in if length actions = 0 then [''Document appears complete and valid''] else actions)"

text \<open>\<open>learnFromAnalysis\<close> appends to the history and keeps its last 1000 entries.\<close>

definition ai_learnFromAnalysis :: "jsEnv \<Rightarrow> analyzer \<Rightarrow> string \<Rightarrow> ai_classification \<Rightarrow> completeness
    \<Rightarrow> validityCheck \<Rightarrow> analyzer" where
  "ai_learnFromAnalysis env a filename cls compl validity =
     (let h = learningHistory a @ [\<lparr>h_filename = filename, h_classification = cls,
                 h_completeness = compl, h_validity = validity, h_timestamp = nowISO env\<rparr>]
      in a\<lparr>learningHistory := (if length h > 1000 then drop (length h - 1000) h else h)\<rparr>)"

record analysis =
  res_documentType :: string
  res_classificationConfidence :: rat
  res_description :: string
  res_fieldCompleteness :: completeness
  res_validityCheck :: validityCheck
  res_jurisdiction :: string
  res_issueDate :: string
  res_expiryDate :: string
  res_validityStatus :: string
  res_reasons :: "string list"
  res_suggestedActions :: "string list"
  res_correlationId :: string
  res_timestamp :: string

text \<open>\<open>analyzeDocument\<close>: the result, and the analyzer after the call.\<close>

definition ai_analyzeDocument :: "jsEnv \<Rightarrow> analyzer \<Rightarrow> string \<Rightarrow> string \<Rightarrow> analysis \<times> analyzer" where
  "ai_analyzeDocument env a fileName filename =
     (let documentText = ai_extractTextFromFile fileName in
      case ai_classifyDocument a documentText filename of (cls, a1) \<Rightarrow>
        (let compl = ai_analyzeFieldCompleteness a1 documentText (documentType cls);
             validity = ai_analyzeValidity env documentText (documentType cls);
             a2 = ai_learnFromAnalysis env a1 filename cls compl validity
         in (\<lparr>res_documentType = documentType cls,
               res_classificationConfidence = confidence cls,
               res_description = description cls,
               res_fieldCompleteness = compl,
               res_validityCheck = validity,
               res_jurisdiction = ai_detectJurisdiction documentText,
               res_issueDate = ai_extractDate documentText ''issue'',
               res_expiryDate = ai_extractDate documentText ''expiry'',
               res_validityStatus = ai_determineValidityStatus validity,
               res_reasons = ai_generateReasons compl validity,
               res_suggestedActions = ai_generateSuggestedActions compl validity,
               res_correlationId = ''ai_'' @ showInt (now env),
               res_timestamp = nowISO env\<rparr>, a2)))"

section \<open>simple-server.js: DocumentAnalyzer\<close>

subsection \<open>The document-type table\<close>

record ss_rules = rules +
  minDepositPercent :: "nat option"
  minLeaseTerm :: "nat option"
  validFormNumbers :: "string list option"
  minBalance :: "nat option"
  validTaxYears :: "nat list option"

record 'r ss_docConfig = "'r docConfig" +
  optionalFields :: "string list"

definition ss_aps :: "ss_rules ss_docConfig" where
  "ss_aps = \<lparr>requiredFields = [''purchasePrice'', ''closingDate'', ''buyerName'', ''sellerName'',
                ''propertyAddress'', ''depositAmount''],
             validityRules = \<lparr>maxAge = 365, requiredSignatures = [''buyer'', ''seller''],
                minDepositPercent = Some 5, minLeaseTerm = None, validFormNumbers = None,
                minBalance = None, validTaxYears = None\<rparr>,
             optionalFields = [''irrevocableDate'', ''scheduleA'', ''financingCondition'',
                ''inspectionCondition'']\<rparr>"

definition ss_lease :: "ss_rules ss_docConfig" where
  "ss_lease = \<lparr>requiredFields = [''rentAmount'', ''leaseStartDate'', ''leaseEndDate'', ''tenantName'',
                ''landlordName'', ''propertyAddress''],
               validityRules = \<lparr>maxAge = 365, requiredSignatures = [''tenant'', ''landlord''],
                minDepositPercent = None, minLeaseTerm = Some 30, validFormNumbers = None,
                minBalance = None, validTaxYears = None\<rparr>,
               optionalFields = [''securityDeposit'', ''utilities'', ''pets'', ''maintenance'']\<rparr>"

definition ss_ltb :: "ss_rules ss_docConfig" where
  "ss_ltb = \<lparr>requiredFields = [''formNumber'', ''tenantName'', ''landlordName'', ''propertyAddress'',
                ''issueDate''],
             validityRules = \<lparr>maxAge = 30, requiredSignatures = [''applicant''],
                minDepositPercent = None, minLeaseTerm = None,
                validFormNumbers = Some [''N1'', ''N2'', ''N3'', ''N4'', ''N5'', ''N6'', ''N7'', ''N8'',
                  ''N9'', ''N10'', ''N11'', ''N12'', ''N13'', ''N14'', ''T1'', ''T2'', ''T3'', ''T4'',
                  ''T5'', ''T6'', ''T7''],
                minBalance = None, validTaxYears = None\<rparr>,
             optionalFields = [''hearingDate'', ''reason'', ''amount'']\<rparr>"

definition ss_mortgage :: "ss_rules ss_docConfig" where
  "ss_mortgage = \<lparr>requiredFields = [''accountNumber'', ''statementDate'', ''principalBalance'',
                ''interestRate'', ''paymentAmount''],
             validityRules = \<lparr>maxAge = 90, requiredSignatures = [],
                minDepositPercent = None, minLeaseTerm = None, validFormNumbers = None,
                minBalance = Some 0, validTaxYears = None\<rparr>,
             optionalFields = [''maturityDate'', ''propertyAddress'', ''lenderName'']\<rparr>"

definition ss_noa :: "ss_rules ss_docConfig" where
  "ss_noa = \<lparr>requiredFields = [''taxYear'', ''assessmentDate'', ''totalIncome'', ''taxOwed'',
                ''refundAmount''],
             validityRules = \<lparr>maxAge = 1095, requiredSignatures = [],
                minDepositPercent = None, minLeaseTerm = None, validFormNumbers = None,
                minBalance = None, validTaxYears = Some [2021, 2022, 2023, 2024]\<rparr>,
             optionalFields = [''sin'', ''filingDate'']\<rparr>"

definition ss_documentTypes :: "(string \<times> ss_rules ss_docConfig) list" where
  "ss_documentTypes = [
     (''Agreement of Purchase and Sale (APS)'', ss_aps),
     (''Residential Lease Agreement'', ss_lease),
     (''Landlord and Tenant Board Form'', ss_ltb),
     (''Mortgage Statement'', ss_mortgage),
     (''Notice of Assessment (CRA)'', ss_noa)]"

text \<open>The same lookup as in function-app.js, on this table.\<close>

definition ss_docConfig :: "string \<Rightarrow> ss_rules ss_docConfig option" where
  "ss_docConfig docType =
     (case map_of ss_documentTypes docType of
        Some cfg \<Rightarrow> Some cfg
      | None \<Rightarrow> if docType \<in> set objectPrototypeNames then None else Some ss_aps)"

subsection \<open>The helpers of the validity check\<close>

definition ss_datePattern :: regex where
  "ss_datePattern = rxg (Cap 1 (Alt slashDate
       (seqs [rxTimes 4 digit, Lit CHR ''-'', rxTimes 2 digit, Lit CHR ''-'', rxTimes 2 digit])))"

definition dateTail :: rx where
  "dateTail = seqs [Star (Cls [CChar CHR '':'', CSpace]),
                    Cap 2 (rxPlus (Cls [CDigit, CChar CHR ''/'', CChar CHR ''-'']))]"

definition ss_datePatterns :: "(string \<times> regex) list" where
  "ss_datePatterns = [
     (''issueDate'', rxi (Seq (Cap 1 (Alt (seqs [lit ''issue'', Star ws, lit ''date'']) (lit ''dated'')))
                              dateTail)),
     (''closingDate'', rxi (Seq (Cap 1 (Alt (seqs [lit ''closing'', Star ws, lit ''date''])
                                             (seqs [lit ''closes'', Star ws, lit ''on''])))
                                dateTail)),
     (''date'', ss_datePattern)]"

text \<open>\<open>extractDate\<close>. Its second argument is one of three literals in the source.\<close>

definition ss_extractDate :: "string \<Rightarrow> string \<Rightarrow> string option" where
  "ss_extractDate text fieldName =
     (let pat = (case map_of ss_datePatterns fieldName of Some p \<Rightarrow> p | None \<Rightarrow> ss_datePattern)
      in case stringMatch text pat of
           None \<Rightarrow> None
         | Some m \<Rightarrow> jsOr (arrayAt m 2) (arrayAt m 1))"

definition amountTail :: rx where
  "amountTail = seqs [Star (Cls [CChar CHR '':'', CSpace]), rxOpt (Lit CHR ''$''),
                      Cap 1 (rxPlus (Cls [CDigit, CChar CHR '','']))]"

definition ss_amountPatterns :: "(string \<times> regex) list" where
  "ss_amountPatterns = [
     (''deposit'', rxi (Seq (lit ''deposit'') amountTail)),
     (''purchasePrice'', rxs (Seq (Lit CHR ''$'') (Cap 1 (rxPlus (Cls [CDigit, CChar CHR '','']))))),
     (''rent'', rxi (Seq (lit ''rent'') amountTail))]"

text \<open>\<open>extractAmount\<close>: \<open>parseFloat(match[1].replace(/,/g, ''))\<close>, or \<open>null\<close>. Both
  \<open>null\<close> and \<open>NaN\<close> are \<open>None\<close> here: the caller only asks whether the value is truthy.
  Its second argument is one of two literals in the source.\<close>

definition ss_extractAmount :: "string \<Rightarrow> string \<Rightarrow> nat option" where
  "ss_extractAmount text fieldName =
     (case map_of ss_amountPatterns fieldName of
        None \<Rightarrow> None
      | Some pat \<Rightarrow>
          (case stringMatch text pat of
             None \<Rightarrow> None
           | Some m \<Rightarrow> (case arrayAt m 1 of
                          None \<Rightarrow> None
                        | Some g \<Rightarrow> parseFloatDigits (filter (\<lambda>c. c \<noteq> CHR '','') g))))"

definition formLetter :: rx where
  "formLetter = Cls [CChar CHR ''n'', CChar CHR ''N'', CChar CHR ''t'', CChar CHR ''T'']"

definition ss_extractFormNumber :: "string \<Rightarrow> string option" where
  "ss_extractFormNumber text =
     (case stringMatch text
             (rxi (Alt (seqs [lit ''form'', Star ws, Cap 1 (Seq formLetter (rxPlus digit))])
                       (seqs [Bol, Cap 2 (Seq formLetter (rxPlus digit))]))) of
        None \<Rightarrow> None
      | Some m \<Rightarrow> map_option toUpperCase (jsOr (arrayAt m 1) (arrayAt m 2)))"

text \<open>\<open>checkSignature\<close> is the function of function-app.js, character for character.\<close>

definition ss_checkSignature :: "string \<Rightarrow> string \<Rightarrow> bool" where
  "ss_checkSignature text signatureType = fa_checkSignature text signatureType"

subsection \<open>Function 3: validity\<close>

record ss_validityCheck = fa_validityCheck +
  expiryDate :: "string option"
  daysUntilExpiry :: days
  sigRequired :: "string list"
  sigPresent :: "string list"
  sigMissing :: "string list"
  sigValid :: bool
  fieldValid :: bool
  fieldErrors :: "string list"

text \<open>\<open>validityRules.maxAge || 365\<close> and \<open>validityRules.minDepositPercent || 5\<close>\<close>

definition ss_maxAge :: "ss_rules \<Rightarrow> nat" where
  "ss_maxAge r = (if maxAge r = 0 then 365 else maxAge r)"

definition ss_minDeposit :: "ss_rules \<Rightarrow> nat" where
  "ss_minDeposit r = (case minDepositPercent r of None \<Rightarrow> 5 | Some k \<Rightarrow> if k = 0 then 5 else k)"

text \<open>The age of the document: \<open>Math.floor((new Date() - new Date(issueDate)) / 86400000)\<close>.\<close>

definition ss_ageInDays :: "jsEnv \<Rightarrow> string \<Rightarrow> days" where
  "ss_ageInDays env issueDate =
     (case parseDate env issueDate of
        None \<Rightarrow> NaN
      | Some t \<Rightarrow> Days ((now env - t) div 86400000))"

definition showDays :: "days \<Rightarrow> string" where
  "showDays d = (case d of Null \<Rightarrow> ''null'' | NaN \<Rightarrow> ''NaN'' | Days k \<Rightarrow> showInt k)"

text \<open>A comparison with \<open>NaN\<close> is false.\<close>

definition daysGreater :: "days \<Rightarrow> rat \<Rightarrow> bool" where
  "daysGreater d x = (case d of Days k \<Rightarrow> of_int k > x | _ \<Rightarrow> False)"

definition ss_checkAge :: "jsEnv \<Rightarrow> ss_rules \<Rightarrow> string \<Rightarrow> ss_validityCheck \<Rightarrow> ss_validityCheck" where
  "ss_checkAge env r documentText v =
     (let issueDate = jsOr (ss_extractDate documentText ''issueDate'')
                        (jsOr (ss_extractDate documentText ''date'')
                              (ss_extractDate documentText ''created''))
      in case issueDate of
           Some d \<Rightarrow>
             (if d = [] then
                v\<lparr>warnings := warnings v @ [''No issue date found, cannot determine document age''],
                  score := score v - 5\<rparr>
              else
               (let age = ss_ageInDays env d;
                    v1 = v\<lparr>ageInDays := age,
                           daysUntilExpiry := (case age of Days k \<Rightarrow> Days (int (ss_maxAge r) - k)
                                               | _ \<Rightarrow> NaN)\<rparr>
                in if daysGreater age (of_nat (ss_maxAge r)) then
                     v1\<lparr>status := ''Expired'', isExpired := True,
                        issues := issues v1 @ [''Document is '' @ showDays age
                            @ '' days old, exceeds maximum age of '' @ showNat (ss_maxAge r) @ '' days''],
                        score := score v1 - 30\<rparr>
                   else if daysGreater age (of_nat (ss_maxAge r) * (8 / 10)) then
                     v1\<lparr>warnings := warnings v1 @ [''Document is '' @ showDays age
                            @ '' days old, approaching expiry''],
                        score := score v1 - 10\<rparr>
                   else v1))
         | None \<Rightarrow>
             v\<lparr>warnings := warnings v @ [''No issue date found, cannot determine document age''],
               score := score v - 5\<rparr>)"

text \<open>The loop over the required signatures.\<close>

fun ss_checkSignatures :: "string \<Rightarrow> string list \<Rightarrow> ss_validityCheck \<Rightarrow> ss_validityCheck" where
  "ss_checkSignatures text [] v = v"
| "ss_checkSignatures text (requiredSig # sigs) v =
     ss_checkSignatures text sigs
       (if ss_checkSignature text requiredSig
        then v\<lparr>sigPresent := sigPresent v @ [requiredSig]\<rparr>
        else v\<lparr>sigMissing := sigMissing v @ [requiredSig],
               sigValid := False,
               issues := issues v @ [''Missing required signature: '' @ requiredSig],
               score := score v - 20\<rparr>)"

definition ss_checkDeposit :: "jsEnv \<Rightarrow> ss_rules \<Rightarrow> string \<Rightarrow> string \<Rightarrow> ss_validityCheck
    \<Rightarrow> ss_validityCheck" where
  "ss_checkDeposit env r documentText docType v =
     (if docType = ''Agreement of Purchase and Sale (APS)'' then
        (case (ss_extractAmount documentText ''deposit'',
               ss_extractAmount documentText ''purchasePrice'') of
           (Some depositAmount, Some purchasePrice) \<Rightarrow>
             (if depositAmount \<noteq> 0 \<and> purchasePrice \<noteq> 0 then
                (let depositPercent = (rat_of_nat depositAmount / rat_of_nat purchasePrice) * 100
                 in if depositPercent < rat_of_nat (ss_minDeposit r) then
                      v\<lparr>issues := issues v @ [''Deposit amount ('' @ toFixed1 env depositPercent
                             @ ''%) is below minimum required ('' @ showNat (ss_minDeposit r) @ ''%)''],
                        score := score v - 15\<rparr>
                    else v)
              else v)
         | _ \<Rightarrow> v)
      else v)"

definition ss_checkFormNumber :: "ss_rules \<Rightarrow> string \<Rightarrow> string \<Rightarrow> ss_validityCheck
    \<Rightarrow> ss_validityCheck" where
  "ss_checkFormNumber r documentText docType v =
     (if docType = ''Landlord and Tenant Board Form'' then
        (case (ss_extractFormNumber documentText, validFormNumbers r) of
           (Some formNumber, Some valid) \<Rightarrow>
             (if formNumber \<noteq> [] \<and> formNumber \<notin> set valid then
                v\<lparr>issues := issues v @ [''Invalid form number: '' @ formNumber],
                  score := score v - 25\<rparr>
              else v)
         | _ \<Rightarrow> v)
      else v)"

definition ss_finalStatus :: "ss_validityCheck \<Rightarrow> ss_validityCheck" where
  "ss_finalStatus v =
     (if score v < 50 then v\<lparr>status := ''Invalid''\<rparr>
      else if score v < 80 then v\<lparr>status := ''Potentially Invalid''\<rparr>
      else if length (issues v) > 0 then v\<lparr>status := ''Valid with Issues''\<rparr>
      else v)"

text \<open>The result as it is before the checks.\<close>

definition ss_initialCheck :: "ss_rules \<Rightarrow> ss_validityCheck" where
  "ss_initialCheck r = \<lparr>status = ''Valid'', score = 100, issues = [], warnings = [],
                 isExpired = False, ageInDays = Null,
                 expiryDate = None, daysUntilExpiry = Null,
                 sigRequired = requiredSignatures r, sigPresent = [], sigMissing = [],
                 sigValid = True, fieldValid = True, fieldErrors = []\<rparr>"

definition ss_validity :: "jsEnv \<Rightarrow> ss_rules ss_docConfig \<Rightarrow> string \<Rightarrow> string \<Rightarrow> ss_validityCheck" where
  "ss_validity env docCfg documentText docType =
     (let r = validityRules docCfg;
          v0 = ss_initialCheck r;
          v1 = ss_checkAge env r documentText v0;
          v2 = ss_checkSignatures documentText (requiredSignatures r) v1;
          v3 = ss_checkDeposit env r documentText docType v2;
          v4 = ss_checkFormNumber r documentText docType v3
      in ss_finalStatus v4)"

text \<open>
  \<open>checkDocumentValidity\<close>. Its third argument \<open>extractedData\<close> is never read. For a
  name inherited from \<open>Object.prototype\<close> the read \<open>validityRules.requiredSignatures\<close> of
  \<open>undefined\<close> throws a \<open>TypeError\<close>, which the function logs and throws again.
\<close>

definition ss_checkDocumentValidity :: "jsEnv \<Rightarrow> string \<Rightarrow> string \<Rightarrow> jsError + ss_validityCheck" where
  "ss_checkDocumentValidity env documentText docType =
     (case ss_docConfig docType of
        None \<Rightarrow> Inl TypeError
      | Some docCfg \<Rightarrow> Inr (ss_validity env docCfg documentText docType))"

section \<open>The ML plugins: DocumentClassifier\<close>

text \<open>
  The classifier of the ML plugins looks at the file name only. Its scores are sums of
  0.4 and 0.1; they are exact fractions here.
\<close>

record model =
  modelKeywords :: "string list"
  modelPatterns :: "string list"
  modelConfidence :: rat

definition dc_models :: "(string \<times> model) list" where
  "dc_models = [
     (''Agreement of Purchase and Sale (APS)'',
        \<lparr>modelKeywords = [''purchase'', ''sale'', ''buyer'', ''seller'', ''closing'', ''property'', ''price''],
         modelPatterns = [''agreement of purchase'', ''purchase and sale'', ''real estate''],
         modelConfidence = 9 / 10\<rparr>),
     (''Residential Lease Agreement'',
        \<lparr>modelKeywords = [''lease'', ''rent'', ''tenant'', ''landlord'', ''rental'', ''monthly''],
         modelPatterns = [''lease agreement'', ''rental agreement'', ''tenancy''],
         modelConfidence = 9 / 10\<rparr>),
     (''Landlord and Tenant Board Form'',
        \<lparr>modelKeywords = [''ltb'', ''board'', ''application'', ''hearing'', ''tribunal''],
         modelPatterns = [''landlord and tenant board'', ''ltb form''],
         modelConfidence = 85 / 100\<rparr>)]"

text \<open>\<open>calculateScore\<close>: the two loops add 0.4 for a pattern and 0.1 for a keyword that the
  file name includes.\<close>

definition dc_calculateScore :: "string \<Rightarrow> model \<Rightarrow> rat" where
  "dc_calculateScore filename m =
     (let s1 = foldl (\<lambda>sc pat. if js_includes filename (toLowerCase pat) then sc + 4 / 10 else sc)
                 0 (modelPatterns m);
          s2 = foldl (\<lambda>sc keyword. if js_includes filename (toLowerCase keyword) then sc + 1 / 10 else sc)
                 s1 (modelKeywords m)
      in min s2 (95 / 100))"

record dc_match =
  dc_type :: string
  dc_confidence :: rat

definition dc_analyzeFileContent :: "string \<Rightarrow> dc_match" where
  "dc_analyzeFileContent filename =
     (let filenameLower = toLowerCase filename in
      if js_includes filenameLower ''a2'' \<or> js_includes filenameLower ''a-2''
      then \<lparr>dc_type = ''A2 Form (Landlord and Tenant Board)'', dc_confidence = 9 / 10\<rparr>
      else if js_includes filenameLower ''lease'' \<or> js_includes filenameLower ''rental''
      then \<lparr>dc_type = ''Residential Lease Agreement'', dc_confidence = 8 / 10\<rparr>
      else if js_includes filenameLower ''ltb'' \<or> js_includes filenameLower ''landlord''
           \<or> js_includes filenameLower ''tenant''
      then \<lparr>dc_type = ''Landlord and Tenant Board Form'', dc_confidence = 8 / 10\<rparr>
      else if js_includes filenameLower ''waiver'' \<or> js_includes filenameLower ''fee''
      then \<lparr>dc_type = ''Fee Waiver Request'', dc_confidence = 8 / 10\<rparr>
      else if js_includes filenameLower ''mortgage'' \<or> js_includes filenameLower ''loan''
      then \<lparr>dc_type = ''Mortgage Document'', dc_confidence = 8 / 10\<rparr>
      else if js_includes filenameLower ''insurance'' \<or> js_includes filenameLower ''policy''
      then \<lparr>dc_type = ''Insurance Document'', dc_confidence = 8 / 10\<rparr>
      else if js_includes filenameLower ''contract'' \<or> js_includes filenameLower ''agreement''
      then \<lparr>dc_type = ''General Contract'', dc_confidence = 6 / 10\<rparr>
      else if js_includes filenameLower ''invoice'' \<or> js_includes filenameLower ''bill''
      then \<lparr>dc_type = ''Invoice/Bill'', dc_confidence = 7 / 10\<rparr>
      else if js_includes filenameLower ''receipt'' \<or> js_includes filenameLower ''payment''
      then \<lparr>dc_type = ''Receipt/Payment'', dc_confidence = 7 / 10\<rparr>
      else if js_includes filenameLower ''statement'' \<or> js_includes filenameLower ''account''
      then \<lparr>dc_type = ''Financial Statement'', dc_confidence = 7 / 10\<rparr>
      else if js_includes filenameLower ''report'' \<or> js_includes filenameLower ''analysis''
      then \<lparr>dc_type = ''Report/Analysis'', dc_confidence = 6 / 10\<rparr>
      else if js_includes filenameLower ''letter'' \<or> js_includes filenameLower ''correspondence''
      then \<lparr>dc_type = ''Letter/Correspondence'', dc_confidence = 6 / 10\<rparr>
      else if js_includes filenameLower ''form'' \<or> js_includes filenameLower ''application''
      then \<lparr>dc_type = ''Form/Application'', dc_confidence = 6 / 10\<rparr>
      else \<lparr>dc_type = ''Unknown Document'', dc_confidence = 2 / 10\<rparr>)"

text \<open>The loop of \<open>classify\<close> over the models.\<close>

fun dc_bestModel :: "(string \<times> model) list \<Rightarrow> string \<Rightarrow> dc_match \<Rightarrow> dc_match" where
  "dc_bestModel [] filenameLower bestMatch = bestMatch"
| "dc_bestModel ((docType, m) # ms) filenameLower bestMatch =
     dc_bestModel ms filenameLower
       (let sc = dc_calculateScore filenameLower m
        in if sc > dc_confidence bestMatch then \<lparr>dc_type = docType, dc_confidence = sc\<rparr>
           else bestMatch)"

text \<open>\<open>classify\<close>. Its first argument, the file, is never read.\<close>

definition dc_classify :: "string \<Rightarrow> dc_match" where
  "dc_classify filename =
     (let filenameLower = toLowerCase filename;
          best1 = dc_bestModel dc_models filenameLower
                    \<lparr>dc_type = ''Unknown Document'', dc_confidence = 3 / 10\<rparr>;
          best2 = (if dc_confidence best1 < 6 / 10
                   then (let contentAnalysis = dc_analyzeFileContent filename
                         in if dc_confidence contentAnalysis > dc_confidence best1
                            then contentAnalysis else best1)
                   else best1)
      in if dc_confidence best2 < 4 / 10
         then \<lparr>dc_type = ''General Legal Document'', dc_confidence = 3 / 10\<rparr>
         else best2)"

section \<open>The enhanced chat system\<close>

text \<open>
  The analysis result the chat receives. Every property is read with \<open>?.\<close> and may be
  absent; a property that is present holds a string here.
\<close>

record documentData =
  dd_documentType :: "string option"
  dd_classificationConfidence :: "rat option"
  dd_completeness :: "completeness option"
  dd_validityCheck :: "validityCheck option"
  dd_jurisdiction :: "string option"
  dd_issueDate :: "string option"
  dd_expiryDate :: "string option"
  dd_purchasePrice :: "string option"
  dd_closingDate :: "string option"
  dd_buyerName :: "string option"
  dd_sellerName :: "string option"
  dd_propertyAddress :: "string option"
  dd_depositAmount :: "string option"

text \<open>\<open>extractKeyFields\<close> builds an object: a property is set when the value is truthy.\<close>

definition setIfTruthy :: "string \<Rightarrow> string option \<Rightarrow> (string \<times> string) list \<Rightarrow> (string \<times> string) list" where
  "setIfTruthy key v fs = (case v of None \<Rightarrow> fs | Some x \<Rightarrow> if x = [] then fs else fs @ [(key, x)])"

definition chat_extractKeyFields :: "documentData \<Rightarrow> (string \<times> string) list" where
  "chat_extractKeyFields d =
     (setIfTruthy ''depositAmount'' (dd_depositAmount d)
     (setIfTruthy ''propertyAddress'' (dd_propertyAddress d)
     (setIfTruthy ''sellerName'' (dd_sellerName d)
     (setIfTruthy ''buyerName'' (dd_buyerName d)
     (setIfTruthy ''closingDate'' (dd_closingDate d)
     (setIfTruthy ''purchasePrice'' (dd_purchasePrice d)
     (setIfTruthy ''jurisdiction'' (dd_jurisdiction d)
     (setIfTruthy ''expiryDate'' (dd_expiryDate d)
     (setIfTruthy ''issueDate'' (dd_issueDate d) [])))))))))"

record chatContext =
  ctx_documentType :: string
  ctx_confidence :: rat
  ctx_completeness :: "completeness option"
  ctx_validity :: "validityCheck option"
  ctx_jurisdiction :: string
  keyFields :: "(string \<times> string) list"
  ctx_issues :: "string list"
  ctx_warnings :: "string list"

definition orDefault :: "string option \<Rightarrow> string \<Rightarrow> string" where
  "orDefault v d = (case v of None \<Rightarrow> d | Some x \<Rightarrow> if x = [] then d else x)"

definition chat_extractDocumentContext :: "documentData \<Rightarrow> chatContext" where
  "chat_extractDocumentContext d =
     \<lparr>ctx_documentType = orDefault (dd_documentType d) ''Unknown'',
      ctx_confidence = (case dd_classificationConfidence d of None \<Rightarrow> 0 | Some c \<Rightarrow> c),
      ctx_completeness = dd_completeness d,
      ctx_validity = dd_validityCheck d,
      ctx_jurisdiction = orDefault (dd_jurisdiction d) ''Unknown'',
      keyFields = chat_extractKeyFields d,
      ctx_issues = (case dd_validityCheck d of None \<Rightarrow> [] | Some v \<Rightarrow> issues v),
      ctx_warnings = (case dd_validityCheck d of None \<Rightarrow> [] | Some v \<Rightarrow> warnings v)\<rparr>"

definition chat_classifyQuestion :: "string \<Rightarrow> string" where
  "chat_classifyQuestion question =
     (let q = toLowerCase question in
      if js_includes q ''what'' \<and> (js_includes q ''document'' \<or> js_includes q ''for'')
      then ''document_purpose''
      else if js_includes q ''missing'' \<or> js_includes q ''incomplete'' \<or> js_includes q ''complete''
      then ''completeness''
      else if js_includes q ''valid'' \<or> js_includes q ''validity'' \<or> js_includes q ''ready''
      then ''validity''
      else if js_includes q ''price'' \<or> js_includes q ''cost'' \<or> js_includes q ''amount''
      then ''financial''
      else if js_includes q ''date'' \<or> js_includes q ''when'' \<or> js_includes q ''time''
      then ''temporal''
      else if js_includes q ''who'' \<or> js_includes q ''party'' \<or> js_includes q ''person''
      then ''parties''
      else if js_includes q ''where'' \<or> js_includes q ''address'' \<or> js_includes q ''location''
      then ''location''
      else if js_includes q ''how'' \<or> js_includes q ''process'' \<or> js_includes q ''step''
      then ''process''
      else ''general'')"

text \<open>\<open>generateFinancialResponse\<close>. \<open>extractKeyFields\<close> never sets \<open>rentAmount\<close>.\<close>

definition chat_generateFinancialResponse :: "chatContext \<Rightarrow> string" where
  "chat_generateFinancialResponse ctx =
     (let fs = keyFields ctx;
          r0 = ''## Financial Information'' @ [CHR 0x0A, CHR 0x0A];
          r1 = (case map_of fs ''purchasePrice'' of
                  Some v \<Rightarrow> r0 @ ''**Purchase Price**: '' @ v @ [CHR 0x0A, CHR 0x0A]
                | None \<Rightarrow> r0);
          r2 = (case map_of fs ''depositAmount'' of
                  Some v \<Rightarrow> r1 @ ''**Deposit Amount**: '' @ v @ [CHR 0x0A, CHR 0x0A]
                | None \<Rightarrow> r1);
          r3 = (case map_of fs ''rentAmount'' of
                  Some v \<Rightarrow> r2 @ ''**Rent Amount**: '' @ v @ [CHR 0x0A, CHR 0x0A]
                | None \<Rightarrow> r2)
      in if map_of fs ''purchasePrice'' = None \<and> map_of fs ''depositAmount'' = None
            \<and> map_of fs ''rentAmount'' = None
         then r3 @ ''I don't see any financial information in this document. ''
                 @ ''This might be because the document type doesn't typically contain financial details, ''
                 @ ''or the information wasn't extracted properly.''
         else r3)"

record chatResponse =
  answerMarkdown :: string
  responseConfidence :: rat
  responseTimestamp :: string
  responseDocumentType :: string
  questionType :: string

text \<open>
  \<open>generateContextualResponse\<close>. The generators of the eight other question types
  build Markdown from the context with characters outside ASCII; they are the
  parameter \<open>others\<close>, from the question type, the question and the context to the text.
\<close>

definition chat_generateContextualResponse ::
    "jsEnv \<Rightarrow> (string \<Rightarrow> string \<Rightarrow> chatContext \<Rightarrow> string) \<Rightarrow> string \<Rightarrow> string \<Rightarrow> chatContext
     \<Rightarrow> chatResponse" where
  "chat_generateContextualResponse env others question qType ctx =
     \<lparr>answerMarkdown = (if qType = ''financial'' then chat_generateFinancialResponse ctx
                         else others qType question ctx),
      responseConfidence =
        (if qType = ''document_purpose'' then 9 / 10
         else if qType = ''completeness'' then 85 / 100
         else if qType = ''validity'' then 8 / 10
         else if qType = ''financial'' then 9 / 10
         else if qType = ''temporal'' then 9 / 10
         else if qType = ''parties'' then 9 / 10
         else if qType = ''location'' then 9 / 10
         else if qType = ''process'' then 8 / 10
         else 7 / 10),
      responseTimestamp = nowISO env,
      responseDocumentType = ctx_documentType ctx,
      questionType = qType\<rparr>"

text \<open>
  \<open>processQuestion\<close>: the response. The call also appends to the conversation history
  and counts the interaction; the response reads neither.
\<close>

definition chat_processQuestion ::
    "jsEnv \<Rightarrow> (string \<Rightarrow> string \<Rightarrow> chatContext \<Rightarrow> string) \<Rightarrow> string \<Rightarrow> documentData \<Rightarrow> chatResponse" where
  "chat_processQuestion env others question d =
     chat_generateContextualResponse env others question (chat_classifyQuestion question)
       (chat_extractDocumentContext d)"

section \<open>function-app.js: the route /api/qa\<close>

text \<open>
  The body of the request: the analysis the client sends back. The handler reads
  \<open>fieldCompleteness.completeness\<close> and \<open>validityCheck\<close> of it and nothing else;
  \<open>purchasePrice\<close> stands for the other properties of an analysis result.
\<close>

record extractedData =
  ed_fieldCompleteness :: "completeness option"
  ed_validityCheck :: "validityCheck option"
  ed_purchasePrice :: "string option"

definition qa_summary :: "string \<Rightarrow> extractedData option \<Rightarrow> string" where
  "qa_summary docType ed =
     (let a0 = ''### Document Analysis Summary'' @ [CHR 0x0A, CHR 0x0A]
               @ ''**Document Type:** '' @ docType @ [CHR 0x0A, CHR 0x0A];
          a1 = (case Option.bind ed ed_fieldCompleteness of
                  None \<Rightarrow> a0
                | Some c \<Rightarrow>
                    a0 @ ''**Completeness:** '' @ status c @ '' ('' @ showInt (score c) @ ''%)'' @ [CHR 0x0A]
                    @ (if length (missingRequired c) > 0
                       then ''**Missing Required Fields:** '' @ join '', '' (missingRequired c) @ [CHR 0x0A]
                       else []))
      in (case Option.bind ed ed_validityCheck of
            None \<Rightarrow> a1
          | Some v \<Rightarrow>
              a1 @ ''**Validity Status:** '' @ status v @ '' ('' @ showInt (score v) @ ''%)'' @ [CHR 0x0A]
              @ (if length (issues v) > 0
                 then ''**Issues:** '' @ join '', '' (issues v) @ [CHR 0x0A]
                 else [])))"

definition qa_answerPart :: "string \<Rightarrow> string \<Rightarrow> extractedData option \<Rightarrow> string" where
  "qa_answerPart question docType ed =
     (let q = toLowerCase question;
          fc = Option.bind ed ed_fieldCompleteness;
          vc = Option.bind ed ed_validityCheck
      in if js_includes q ''what'' \<and> js_includes q ''document'' then
           ''This is a **'' @ docType @ ''** document. ''
           @ (case fc of None \<Rightarrow> []
              | Some c \<Rightarrow> ''The document is '' @ toLowerCase (status c)
                  @ '' with a completeness score of '' @ showInt (score c) @ ''%. '')
           @ (case vc of None \<Rightarrow> []
              | Some v \<Rightarrow> ''The validity status is '' @ toLowerCase (status v) @ ''.'')
         else if js_includes q ''missing'' \<or> js_includes q ''incomplete'' then
           (case fc of
              Some c \<Rightarrow>
                (if length (missingRequired c) > 0
                 then ''The following required fields are missing: '' @ join '', '' (missingRequired c) @ ''. ''
                 else ''No missing required fields detected. '')
            | None \<Rightarrow> ''No missing required fields detected. '')
           @ (case vc of
                Some v \<Rightarrow>
                  (if length (issues v) > 0
                   then ''However, there are validity issues: '' @ join '', '' (issues v) @ ''.''
                   else [])
              | None \<Rightarrow> [])
         else if js_includes q ''valid'' \<or> js_includes q ''ready'' then
           (case vc of
              Some v \<Rightarrow>
                ''The document validity status is **'' @ status v @ ''** with a score of ''
                @ showInt (score v) @ ''%. ''
                @ (if length (issues v) = 0
                   then ''The document appears to be ready for use.''
                   else ''Please address the following issues: '' @ join '', '' (issues v) @ ''.'')
            | None \<Rightarrow> [])
         else ''Based on the document analysis, I can provide information about the document type, completeness, and validity. Please ask specific questions about what you need to know.'')"

definition qa_nextSteps :: "extractedData option \<Rightarrow> string" where
  "qa_nextSteps ed =
     (case Option.bind ed ed_fieldCompleteness of
        Some c \<Rightarrow>
          (if length (missingRequired c) > 0
           then ''- Complete the missing required fields: '' @ join '', '' (missingRequired c) @ [CHR 0x0A]
           else [])
      | None \<Rightarrow> [])
     @ (case Option.bind ed ed_validityCheck of
          Some v \<Rightarrow>
            (if length (issues v) > 0
             then ''- Address the validity issues: '' @ join '', '' (issues v) @ [CHR 0x0A]
             else [])
        | None \<Rightarrow> [])
     @ ''- Review the document one final time'' @ [CHR 0x0A]
     @ ''- Ensure all parties have signed if required'' @ [CHR 0x0A]
     @ ''- Make copies for your records'' @ [CHR 0x0A]"

text \<open>The \<open>answerMarkdown\<close> of the response of \<open>POST /api/qa\<close>.\<close>

definition qa_answerMarkdown :: "string \<Rightarrow> string \<Rightarrow> extractedData option \<Rightarrow> string" where
  "qa_answerMarkdown question docType ed =
     qa_summary docType ed
     @ [CHR 0x0A] @ ''### Answer'' @ [CHR 0x0A, CHR 0x0A]
     @ qa_answerPart question docType ed
     @ [CHR 0x0A, CHR 0x0A] @ ''### Next Steps'' @ [CHR 0x0A, CHR 0x0A]
     @ qa_nextSteps ed"

section \<open>An environment for the examples\<close>

text \<open>A clock that reads 14 November 2023, a \<open>Date\<close> that parses two spellings of
  1 January 2023, and \<open>toFixed(1)\<close> on the exact value.\<close>

definition sampleEnv :: jsEnv where
  "sampleEnv = \<lparr>now = 1700000000000, nowISO = ''2023-11-14T22:13:20.000Z'',
      parseDate = (\<lambda>s. if s = ''2023-01-01'' then Some 1672531200000
                         else if s = ''01/01/2023'' then Some 1672549200000 else None),
      toFixed1 = (\<lambda>x. showInt (mathRound (x * 10) div 10) @ ''.'' @ showInt (mathRound (x * 10) mod 10))\<rparr>"

text \<open>An analysis result with a purchase price, as the chat receives it, and the
  analysis a client sends to \<open>/api/qa\<close>.\<close>

definition sampleData :: documentData where
  "sampleData = \<lparr>dd_documentType = Some ''Agreement of Purchase and Sale (APS)'',
      dd_classificationConfidence = Some (9 / 10), dd_completeness = None, dd_validityCheck = None,
      dd_jurisdiction = Some ''Ontario'', dd_issueDate = None, dd_expiryDate = None,
      dd_purchasePrice = Some ''$750,000'', dd_closingDate = None, dd_buyerName = None,
      dd_sellerName = None, dd_propertyAddress = None, dd_depositAmount = Some ''$37,500''\<rparr>"

definition sampleExtracted :: extractedData where
  "sampleExtracted = \<lparr>
      ed_fieldCompleteness = Some \<lparr>status = ''Complete'', score = 100, missingRequired = [],
         presentRequired = [''purchasePrice'', ''closingDate'', ''buyerName'', ''sellerName'',
           ''propertyAddress'', ''depositAmount'']\<rparr>,
      ed_validityCheck = Some \<lparr>status = ''Valid'', score = 100, issues = [], warnings = []\<rparr>,
      ed_purchasePrice = Some ''$750,000''\<rparr>"

section \<open>Properties of the runtime model\<close>

lemma bt_Star_nonempty: "bt ic n (Star r) s c \<noteq> []"
  by simp

lemma search_found: "bt ic n r s [] \<noteq> [] \<Longrightarrow> search ic n r s \<noteq> None"
  by (cases s) (auto split: list.splits)

lemma test_catch_all: "test (rxi (Star Dot)) text"
proof -
  have "search True (length text) (Star Dot) text \<noteq> None"
    by (rule search_found) (rule bt_Star_nonempty)
  then show ?thesis
    by (auto simp: test_def regexTest_def regexExec_def rxi_def Let_def split: option.splits)
qed

lemma regexExec_not_global: "\<not> global r \<Longrightarrow> snd (regexExec r text) = r"
  by (auto simp: regexExec_def Let_def split: option.splits)

lemma regexTest_not_global: "\<not> global r \<Longrightarrow> snd (regexTest r text) = r"
  using regexExec_not_global [of r "text"] by (auto simp: regexTest_def split: prod.splits)

lemma matchGlobal_nonempty: "matchGlobal r text = Some ms \<Longrightarrow> ms \<noteq> []"
  by (auto simp: matchGlobal_def split: list.splits)

text \<open>
  The engine on small inputs: the first alternative that matches wins, a greedy
  quantifier takes what it can and gives back what the rest needs, the groups hold what
  they matched, \<open>^\<close> holds the match at the start, the global scan goes on behind each
  match, and a test of a global regex moves its \<open>lastIndex\<close>.
\<close>

lemma exec_first_alternative:
  "map_option matched (fst (regexExec (rxs (Alt (lit ''a'') (lit ''ab''))) ''xab'')) = Some ''a''"
  by code_simp

lemma exec_greedy_gives_back:
  "map_option matched (fst (regexExec (rxs (Seq (Star Dot) (lit ''b''))) ''abcb d'')) = Some ''abcb''"
  by code_simp

lemma exec_lazy_stops_early:
  "map_option matched (fst (regexExec (rxs (Seq (LazyStar Dot) (lit ''b''))) ''abcb d'')) = Some ''ab''"
  by code_simp

lemma stringMatch_groups:
  "stringMatch ''Deposit: $1,000 paid'' (rxi (Seq (lit ''deposit'') amountTail))
     = Some [Some ''Deposit: $1,000'', Some ''1,000'']"
  by code_simp

lemma stringMatch_unused_group:
  "stringMatch ''n4 notice''
      (rxi (Alt (seqs [lit ''form'', Star ws, Cap 1 (Seq formLetter (rxPlus digit))])
                (seqs [Bol, Cap 2 (Seq formLetter (rxPlus digit))])))
     = Some [Some ''n4'', None, Some ''n4'']"
  by code_simp

lemma test_anchor:
  "test (rxs (Seq Bol (lit ''n4''))) ''n4 x'' \<and> \<not> test (rxs (Seq Bol (lit ''n4''))) ''x n4''"
  by code_simp

lemma matchGlobal_dates:
  "matchGlobal (rxg slashDate) ''a 01/02/2020 and 13/2/2000'' = Some [''01/02/2020'', ''13/2/2000'']"
  by code_simp

lemma regexTest_global_moves:
  "regexTest (rxg (lit ''ab'')) ''xxab'' = (True, (rxg (lit ''ab''))\<lparr>lastIndex := 4\<rparr>)"
  by code_simp

section \<open>Properties of function-app.js\<close>

subsection \<open>Field completeness\<close>

lemma mathRound_mono: "x \<le> y \<Longrightarrow> mathRound x \<le> mathRound y"
  unfolding mathRound_def by (simp add: floor_mono)

lemma mathRound_round: "mathRound x = round x"
  unfolding mathRound_def round_def by simp

lemma filter_length_mono:
  "(\<And>x. x \<in> set xs \<Longrightarrow> P x \<Longrightarrow> Q x) \<Longrightarrow> length (filter P xs) \<le> length (filter Q xs)"
  by (induction xs) auto

lemma percent_mono:
  "k \<le> m \<Longrightarrow> mathRound (rat_of_nat k / rat_of_nat n * 100) \<le> mathRound (rat_of_nat m / rat_of_nat n * 100)"
  by (intro mathRound_mono mult_right_mono divide_right_mono) simp_all

lemma fa_checkFields_present:
  "presentRequired (fa_checkFields text fs st) = presentRequired st @ filter (fa_isFieldPresent text) fs"
  by (induction fs arbitrary: st) auto

lemma fa_checkFields_missing:
  "missingRequired (fa_checkFields text fs st) = missingRequired st @ filter (\<lambda>f. \<not> fa_isFieldPresent text f) fs"
  by (induction fs arbitrary: st) auto

lemma fa_docConfig_cases:
  "docType \<notin> set objectPrototypeNames \<Longrightarrow>
     fa_docConfig docType = Some fa_aps \<or> fa_docConfig docType = Some fa_lease
       \<or> fa_docConfig docType = Some fa_ltb"
  unfolding fa_docConfig_def fa_documentTypes_def by (simp split: option.splits)

lemma fa_docConfig_inherited:
  "docType \<in> set objectPrototypeNames \<Longrightarrow> fa_docConfig docType = None"
  unfolding fa_docConfig_def fa_documentTypes_def objectPrototypeNames_def by auto

lemma fa_inherited_name_throws:
  "docType \<in> set objectPrototypeNames \<Longrightarrow>
     fa_checkFieldCompleteness text docType = Inl TypeError
     \<and> fa_checkDocumentValidity text docType = Inl TypeError"
  by (simp add: fa_checkFieldCompleteness_def fa_checkDocumentValidity_def fa_docConfig_inherited)

text \<open>No field name and no signature role of a table is a name inherited from
  \<open>Object.prototype\<close>.\<close>

lemma table_names_not_inherited:
  "\<forall>(name, cfg) \<in> set fa_documentTypes.
      (\<forall>f \<in> set (requiredFields cfg). f \<notin> set objectPrototypeNames)
    \<and> (\<forall>r \<in> set (requiredSignatures (validityRules cfg)). toLowerCase r \<notin> set objectPrototypeNames)"
  "\<forall>(name, cfg) \<in> set ss_documentTypes.
      (\<forall>r \<in> set (requiredSignatures (validityRules cfg)). toLowerCase r \<notin> set objectPrototypeNames)"
  "\<forall>(name, pat) \<in> set initializeDocumentDatabase.
      (\<forall>f \<in> set (patRequiredFields pat). f \<notin> set objectPrototypeNames)"
  by code_simp+

lemma fa_requiredFields_nonempty:
  "fa_docConfig docType = Some cfg \<Longrightarrow> requiredFields cfg \<noteq> []"
  unfolding fa_docConfig_def fa_documentTypes_def
  by (auto simp: fa_aps_def fa_lease_def fa_ltb_def split: option.splits if_splits)

lemma fa_fieldCompleteness_present:
  "presentRequired (fa_fieldCompleteness cfg text) = filter (fa_isFieldPresent text) (requiredFields cfg)"
  unfolding fa_fieldCompleteness_def by (simp add: Let_def fa_checkFields_present)

lemma fa_fieldCompleteness_missing:
  "missingRequired (fa_fieldCompleteness cfg text) = filter (\<lambda>f. \<not> fa_isFieldPresent text f) (requiredFields cfg)"
  unfolding fa_fieldCompleteness_def by (simp add: Let_def fa_checkFields_missing)

lemma fa_fieldCompleteness_score:
  "score (fa_fieldCompleteness cfg text) =
     mathRound (rat_of_nat (length (filter (fa_isFieldPresent text) (requiredFields cfg)))
                  / rat_of_nat (length (requiredFields cfg)) * 100)"
  unfolding fa_fieldCompleteness_def by (simp add: Let_def fa_checkFields_present)

lemma fa_fieldCompleteness_status:
  "status (fa_fieldCompleteness cfg text) = fa_completenessStatus (score (fa_fieldCompleteness cfg text))"
  unfolding fa_fieldCompleteness_def by (simp add: Let_def)

section \<open>Properties of ai-document-analyzer.js\<close>

subsection \<open>Field completeness\<close>

lemma ai_checkFields_eq:
  "ai_checkFields text fs (p, m) =
     (p @ filter (ai_fieldFound text) fs, m @ filter (\<lambda>f. \<not> ai_fieldFound text f) fs)"
  by (induction fs arbitrary: p m) auto

lemma ai_completeness_found:
  assumes "find (\<lambda>p. patDocumentType p = docType) (map snd (documentPatterns a)) = Some pat"
  shows "ai_analyzeFieldCompleteness a text docType =
     \<lparr>status = ai_completenessStatus (rat_of_nat (length (filter (ai_fieldFound text) (patRequiredFields pat)))
                  / rat_of_nat (length (patRequiredFields pat)) * 100),
      score = mathRound (rat_of_nat (length (filter (ai_fieldFound text) (patRequiredFields pat)))
                  / rat_of_nat (length (patRequiredFields pat)) * 100),
      missingRequired = filter (\<lambda>f. \<not> ai_fieldFound text f) (patRequiredFields pat),
      presentRequired = filter (ai_fieldFound text) (patRequiredFields pat)\<rparr>"
  unfolding ai_analyzeFieldCompleteness_def using assms by (simp add: ai_checkFields_eq Let_def)

lemma ai_completeness_unknown:
  assumes "find (\<lambda>p. patDocumentType p = docType) (map snd (documentPatterns a)) = None"
  shows "ai_analyzeFieldCompleteness a text docType =
     \<lparr>status = ''Unknown Document Type'', score = 0, missingRequired = [], presentRequired = []\<rparr>"
  unfolding ai_analyzeFieldCompleteness_def using assms by simp

lemma ai_completeness_score_mono:
  assumes "find (\<lambda>p. patDocumentType p = docType) (map snd (documentPatterns a)) = Some pat"
    and "\<forall>f \<in> set (patRequiredFields pat). ai_fieldFound text f \<longrightarrow> ai_fieldFound text2 f"
  shows "score (ai_analyzeFieldCompleteness a text docType)
           \<le> score (ai_analyzeFieldCompleteness a text2 docType)"
proof -
  have "length (filter (ai_fieldFound text) (patRequiredFields pat))
          \<le> length (filter (ai_fieldFound text2) (patRequiredFields pat))"
    using assms(2) by (intro filter_length_mono) blast
  from percent_mono [OF this] show ?thesis
    by (simp add: ai_completeness_found [OF assms(1)])
qed

lemma ai_completeness_score_formula:
  assumes "find (\<lambda>p. patDocumentType p = docType) (map snd (documentPatterns a)) = Some pat"
  shows "presentRequired (ai_analyzeFieldCompleteness a text docType)
           = filter (ai_fieldFound text) (patRequiredFields pat)"
    and "score (ai_analyzeFieldCompleteness a text docType)
           = round (100 * rat_of_nat (length (presentRequired (ai_analyzeFieldCompleteness a text docType)))
                      / rat_of_nat (length (patRequiredFields pat)))"
  by (simp_all add: ai_completeness_found [OF assms] mathRound_round mult.commute)

lemma find_Some_mem:
  "find P xs = Some x \<Longrightarrow> x \<in> set xs"
  by (induction xs) (auto split: if_splits)

lemma shipped_profile_sizes:
  "\<forall>pat \<in> set (map snd initializeDocumentDatabase).
     5 \<le> length (patRequiredFields pat) \<and> length (patRequiredFields pat) \<le> 7"
  by code_simp

section \<open>Properties of the validity checks\<close>

subsection \<open>function-app.js\<close>

lemma fa_checkSignatures_score:
  "score (fa_checkSignatures text sigs v)
     = score v - 20 * int (length (filter (\<lambda>role. \<not> fa_checkSignature text role) sigs))"
  by (induction sigs arbitrary: v) auto

lemma fa_checkSignatures_issues:
  "issues (fa_checkSignatures text sigs v)
     = issues v @ map (\<lambda>role. ''Missing required signature: '' @ role)
                      (filter (\<lambda>role. \<not> fa_checkSignature text role) sigs)"
  by (induction sigs arbitrary: v) auto

lemma fa_checkSignatures_warnings:
  "warnings (fa_checkSignatures text sigs v) = warnings v"
  by (induction sigs arbitrary: v) auto

lemma fa_checkSignatures_status:
  "status (fa_checkSignatures text sigs v) = status v"
  by (induction sigs arbitrary: v) auto

lemma fa_validity_score:
  "score (fa_validity cfg text)
     = 100 - 20 * int (length (filter (\<lambda>role. \<not> fa_checkSignature text role)
                                 (requiredSignatures (validityRules cfg))))
           - (if fa_hasDate text then 0 else 10)"
  unfolding fa_validity_def by (simp add: Let_def fa_checkSignatures_score fa_initialCheck_def)

lemma fa_validity_issues:
  "issues (fa_validity cfg text)
     = map (\<lambda>role. ''Missing required signature: '' @ role)
           (filter (\<lambda>role. \<not> fa_checkSignature text role) (requiredSignatures (validityRules cfg)))"
  unfolding fa_validity_def by (simp add: Let_def fa_checkSignatures_issues fa_initialCheck_def)

lemma fa_validity_status:
  "status (fa_validity cfg text)
     = (if score (fa_validity cfg text) < 80 then ''Potentially Invalid''
        else if issues (fa_validity cfg text) \<noteq> [] then ''Valid with Issues''
        else ''Valid'')"
  unfolding fa_validity_def by (simp add: Let_def fa_checkSignatures_status fa_initialCheck_def)

lemma fa_signatures_at_most_two:
  "fa_docConfig docType = Some cfg \<Longrightarrow> length (requiredSignatures (validityRules cfg)) \<le> 2"
  unfolding fa_docConfig_def fa_documentTypes_def
  by (auto simp: fa_aps_def fa_lease_def fa_ltb_def split: option.splits if_splits)

lemma fa_validity_score_bounds:
  assumes "fa_docConfig docType = Some cfg"
  shows "50 \<le> score (fa_validity cfg text) \<and> score (fa_validity cfg text) \<le> 100"
proof -
  have "length (filter (\<lambda>role. \<not> fa_checkSignature text role) (requiredSignatures (validityRules cfg)))
          \<le> length (requiredSignatures (validityRules cfg))"
    by (rule length_filter_le)
  also have "\<dots> \<le> 2" using assms by (rule fa_signatures_at_most_two)
  finally show ?thesis unfolding fa_validity_score by (auto split: if_splits)
qed

subsection \<open>ai-document-analyzer.js\<close>

lemma ai_validity_score:
  "score (ai_analyzeValidity env text docType)
     = 100 - (if ai_isDocumentExpired env text then 30 else 0)
           - (if ai_hasMissingSignatures text then 20 else 0)
           - (if ai_hasIncompleteSections text then 10 else 0)"
  unfolding ai_analyzeValidity_def by (simp add: Let_def)

lemma ai_validity_score_bounds:
  "40 \<le> score (ai_analyzeValidity env text docType) \<and> score (ai_analyzeValidity env text docType) \<le> 100"
  unfolding ai_validity_score by simp

subsection \<open>simple-server.js\<close>

lemma ss_checkAge_score:
  "score v - 30 \<le> score (ss_checkAge env r text v) \<and> score (ss_checkAge env r text v) \<le> score v"
  unfolding ss_checkAge_def by (simp add: Let_def split: option.splits)

lemma ss_checkSignatures_score:
  "score (ss_checkSignatures text sigs v)
     = score v - 20 * int (length (filter (\<lambda>role. \<not> ss_checkSignature text role) sigs))"
  by (induction sigs arbitrary: v) auto

lemma ss_checkSignatures_issues:
  "issues (ss_checkSignatures text sigs v)
     = issues v @ map (\<lambda>role. ''Missing required signature: '' @ role)
                      (filter (\<lambda>role. \<not> ss_checkSignature text role) sigs)"
  by (induction sigs arbitrary: v) auto

lemma ss_checkSignatures_missing:
  "sigMissing (ss_checkSignatures text sigs v)
     = sigMissing v @ filter (\<lambda>role. \<not> ss_checkSignature text role) sigs"
  by (induction sigs arbitrary: v) auto

lemma ss_checkSignatures_present:
  "sigPresent (ss_checkSignatures text sigs v)
     = sigPresent v @ filter (ss_checkSignature text) sigs"
  by (induction sigs arbitrary: v) auto

lemma ss_checkDeposit_score:
  "score v - 15 \<le> score (ss_checkDeposit env r text docType v)
     \<and> score (ss_checkDeposit env r text docType v) \<le> score v"
  unfolding ss_checkDeposit_def by (simp add: Let_def split: option.splits)

lemma ss_checkDeposit_other:
  "docType \<noteq> ''Agreement of Purchase and Sale (APS)'' \<Longrightarrow> ss_checkDeposit env r text docType v = v"
  unfolding ss_checkDeposit_def by simp

lemma ss_checkFormNumber_score:
  "score v - 25 \<le> score (ss_checkFormNumber r text docType v)
     \<and> score (ss_checkFormNumber r text docType v) \<le> score v"
  unfolding ss_checkFormNumber_def by (simp add: Let_def split: option.splits)

lemma ss_checkFormNumber_other:
  "docType \<noteq> ''Landlord and Tenant Board Form'' \<Longrightarrow> ss_checkFormNumber r text docType v = v"
  unfolding ss_checkFormNumber_def by simp

lemma ss_finalStatus_score: "score (ss_finalStatus v) = score v"
  unfolding ss_finalStatus_def by simp

lemma ss_docConfig_aps:
  "ss_docConfig ''Agreement of Purchase and Sale (APS)'' = Some ss_aps"
  unfolding ss_docConfig_def ss_documentTypes_def by simp

lemma ss_docConfig_ltb:
  "ss_docConfig ''Landlord and Tenant Board Form'' = Some ss_ltb"
  unfolding ss_docConfig_def ss_documentTypes_def by simp

lemma ss_signatures_at_most_two:
  "ss_docConfig docType = Some cfg \<Longrightarrow> length (requiredSignatures (validityRules cfg)) \<le> 2"
  unfolding ss_docConfig_def ss_documentTypes_def
  by (auto simp: ss_aps_def ss_lease_def ss_ltb_def ss_mortgage_def ss_noa_def split: option.splits if_splits)

lemma ss_docConfig_total:
  "docType \<notin> set objectPrototypeNames \<Longrightarrow> \<exists>cfg. ss_docConfig docType = Some cfg"
  unfolding ss_docConfig_def by (simp split: option.splits)

lemma ss_validity_score_bounds:
  assumes cfg: "ss_docConfig docType = Some cfg"
  shows "15 \<le> score (ss_validity env cfg text docType) \<and> score (ss_validity env cfg text docType) \<le> 100"
proof -
  define r where "r = validityRules cfg"
  define v0 where "v0 = ss_initialCheck r"
  define v1 where "v1 = ss_checkAge env r text v0"
  define v2 where "v2 = ss_checkSignatures text (requiredSignatures r) v1"
  define v3 where "v3 = ss_checkDeposit env r text docType v2"
  define v4 where "v4 = ss_checkFormNumber r text docType v3"
  have res: "score (ss_validity env cfg text docType) = score v4"
    unfolding ss_validity_def by (simp add: Let_def ss_finalStatus_score r_def v0_def v1_def v2_def v3_def v4_def)
  have s0: "score v0 = 100" by (simp add: v0_def ss_initialCheck_def)
  have s1: "70 \<le> score v1 \<and> score v1 \<le> 100"
    using ss_checkAge_score [of v0 env r "text"] s0 by (simp add: v1_def)
  let ?m = "length (filter (\<lambda>role. \<not> ss_checkSignature text role) (requiredSignatures r))"
  have s2: "score v2 = score v1 - 20 * int ?m"
    by (simp add: v2_def ss_checkSignatures_score)
  have m2: "?m \<le> length (requiredSignatures r)" by (rule length_filter_le)
  have s3: "score v2 - 15 \<le> score v3 \<and> score v3 \<le> score v2"
    using ss_checkDeposit_score [of v2 env r "text" docType] by (simp add: v3_def)
  have s4: "score v3 - 25 \<le> score v4 \<and> score v4 \<le> score v3"
    using ss_checkFormNumber_score [of v3 r "text" docType] by (simp add: v4_def)
  consider (aps) "docType = ''Agreement of Purchase and Sale (APS)''"
    | (ltb) "docType = ''Landlord and Tenant Board Form''"
    | (other) "docType \<noteq> ''Agreement of Purchase and Sale (APS)''" "docType \<noteq> ''Landlord and Tenant Board Form''"
    by blast
  then show ?thesis
  proof cases
    case aps
    then have same: "v4 = v3" by (simp add: v4_def ss_checkFormNumber_other)
    have "length (requiredSignatures r) \<le> 2"
      using cfg by (simp add: r_def ss_signatures_at_most_two)
    with m2 have "int ?m \<le> 2" by linarith
    with res same s1 s2 s3 show ?thesis by auto
  next
    case ltb
    then have same: "v3 = v2" by (simp add: v3_def ss_checkDeposit_other)
    have "cfg = ss_ltb" using cfg ltb ss_docConfig_ltb by simp
    then have "length (requiredSignatures r) = 1" by (simp add: r_def ss_ltb_def)
    with m2 have "int ?m \<le> 1" by linarith
    with res same s1 s2 s4 show ?thesis by auto
  next
    case other
    then have same: "v4 = v2" by (simp add: v4_def v3_def ss_checkDeposit_other ss_checkFormNumber_other)
    have "length (requiredSignatures r) \<le> 2"
      using cfg by (simp add: r_def ss_signatures_at_most_two)
    with m2 have "int ?m \<le> 2" by linarith
    with res same s1 s2 show ?thesis by auto
  qed
qed

lemma ss_validity_unfold:
  "ss_validity env cfg text docType =
     ss_finalStatus (ss_checkFormNumber (validityRules cfg) text docType
       (ss_checkDeposit env (validityRules cfg) text docType
         (ss_checkSignatures text (requiredSignatures (validityRules cfg))
           (ss_checkAge env (validityRules cfg) text (ss_initialCheck (validityRules cfg))))))"
  unfolding ss_validity_def by (simp add: Let_def)

section \<open>Properties of the classifiers\<close>

subsection \<open>The regex objects of the pattern database\<close>

lemma ai_testPatterns_frame:
  "\<forall>r \<in> set rs. \<not> global r \<Longrightarrow> snd (ai_testPatterns rs text) = rs"
proof (induction rs)
  case Nil
  then show ?case by simp
next
  case (Cons r rs)
  then have "snd (regexTest r text) = r" and "snd (ai_testPatterns rs text) = rs"
    by (simp_all add: regexTest_not_global)
  then show ?case by (auto split: prod.splits)
qed

lemma ai_matchPattern_frame:
  assumes "\<forall>r \<in> set (textPatterns pat). \<not> global r"
  shows "snd (ai_matchPattern pat text filename) = pat"
  using ai_testPatterns_frame [OF assms, of "text"]
  by (auto simp: ai_matchPattern_def Let_def split: prod.splits)

lemma ai_classifyLoop_frame:
  "\<forall>(name, pat) \<in> set ps. \<forall>r \<in> set (textPatterns pat). \<not> global r
     \<Longrightarrow> snd (ai_classifyLoop ps text filename best) = ps"
proof (induction ps arbitrary: best)
  case Nil
  then show ?case by simp
next
  case (Cons p ps)
  obtain name pat where p: "p = (name, pat)" by (cases p)
  from Cons.prems p have "snd (ai_matchPattern pat text filename) = pat"
    by (intro ai_matchPattern_frame) simp
  moreover from Cons.prems have "\<And>b. snd (ai_classifyLoop ps text filename b) = ps"
    by (intro Cons.IH) simp
  ultimately show ?case
    unfolding p by (auto split: prod.splits) (metis snd_conv)+
qed

lemma ai_classifyDocument_frame:
  assumes "\<forall>(name, pat) \<in> set (documentPatterns a). \<forall>r \<in> set (textPatterns pat). \<not> global r"
  shows "snd (ai_classifyDocument a text filename) = a"
  using ai_classifyLoop_frame [OF assms, of "text" filename ai_unknown]
  by (auto simp: ai_classifyDocument_def split: prod.splits)

lemma ai_learnFromAnalysis_frame:
  "documentPatterns (ai_learnFromAnalysis env a filename cls compl validity) = documentPatterns a
   \<and> fieldPatterns (ai_learnFromAnalysis env a filename cls compl validity) = fieldPatterns a"
  by (simp add: ai_learnFromAnalysis_def Let_def)

lemma ai_analyzeDocument_frame:
  assumes "\<forall>(name, pat) \<in> set (documentPatterns a). \<forall>r \<in> set (textPatterns pat). \<not> global r"
  shows "documentPatterns (snd (ai_analyzeDocument env a fileName filename)) = documentPatterns a
     \<and> fieldPatterns (snd (ai_analyzeDocument env a fileName filename)) = fieldPatterns a"
  using ai_classifyDocument_frame [OF assms, of "ai_extractTextFromFile fileName" filename]
  by (auto simp: ai_analyzeDocument_def Let_def ai_learnFromAnalysis_frame split: prod.splits)

lemma initial_patterns_not_global:
  "\<forall>(name, pat) \<in> set initializeDocumentDatabase. \<forall>r \<in> set (textPatterns pat). \<not> global r"
  by (simp add: initializeDocumentDatabase_def ai_apsPattern_def ai_a2Pattern_def ai_l1Pattern_def
      ai_leasePattern_def ai_mortgagePattern_def ai_insurancePattern_def rxi_def)

subsection \<open>Texts and file names without an indicator\<close>

lemma ai_testPatterns_none:
  "\<forall>r \<in> set rs. \<not> fst (regexTest r text) \<Longrightarrow> fst (ai_testPatterns rs text) = 0"
  by (induction rs) (auto split: prod.splits)

lemma ai_matchPattern_none:
  assumes "\<forall>ind \<in> set (visualIndicators pat). \<not> js_includes (toUpperCase text) ind"
    and "\<forall>r \<in> set (textPatterns pat). \<not> fst (regexTest r text)"
    and "\<not> ai_filenameMatches pat filename"
  shows "fst (ai_matchPattern pat text filename) = 0"
proof -
  have "filter (\<lambda>indicator. js_includes (toUpperCase text) indicator) (visualIndicators pat) = []"
    using assms(1) by (simp add: filter_empty_conv)
  moreover have "fst (ai_testPatterns (textPatterns pat) text) = 0"
    using assms(2) by (rule ai_testPatterns_none)
  ultimately show ?thesis
    using assms(3) by (auto simp: ai_matchPattern_def Let_def split: prod.splits)
qed

lemma ai_classifyLoop_none:
  assumes "\<forall>(name, pat) \<in> set ps. fst (ai_matchPattern pat text filename) = 0"
    and "0 \<le> confidence best"
  shows "fst (ai_classifyLoop ps text filename best) = best"
  using assms
proof (induction ps)
  case Nil
  then show ?case by simp
next
  case (Cons p ps)
  obtain name pat where p: "p = (name, pat)" by (cases p)
  from Cons.prems p have z: "fst (ai_matchPattern pat text filename) = 0" by simp
  from Cons have "fst (ai_classifyLoop ps text filename best) = best" by simp
  with z Cons.prems(2) show ?case
    unfolding p by (auto split: prod.splits)
qed

lemma ai_classifyDocument_none:
  assumes "\<forall>(name, pat) \<in> set (documentPatterns a).
             (\<forall>ind \<in> set (visualIndicators pat). \<not> js_includes (toUpperCase text) ind)
           \<and> (\<forall>r \<in> set (textPatterns pat). \<not> fst (regexTest r text))
           \<and> \<not> ai_filenameMatches pat filename"
  shows "fst (ai_classifyDocument a text filename) = ai_unknown"
proof -
  have "\<forall>(name, pat) \<in> set (documentPatterns a). fst (ai_matchPattern pat text filename) = 0"
    using assms by (auto intro!: ai_matchPattern_none)
  then have "fst (ai_classifyLoop (documentPatterns a) text filename ai_unknown) = ai_unknown"
    by (rule ai_classifyLoop_none) (simp add: ai_unknown_def)
  then show ?thesis
    by (auto simp: ai_classifyDocument_def split: prod.splits)
qed

lemma foldl_no_hit:
  "\<forall>x \<in> set xs. \<not> P x \<Longrightarrow> foldl (\<lambda>sc x. if P x then sc + d else sc) (s::rat) xs = s"
  by (induction xs arbitrary: s) auto

lemma dc_calculateScore_none:
  assumes "\<forall>k \<in> set (modelPatterns m @ modelKeywords m). \<not> js_includes filename (toLowerCase k)"
  shows "dc_calculateScore filename m = 0"
proof -
  have "foldl (\<lambda>sc pat. if js_includes filename (toLowerCase pat) then sc + 4 / 10 else sc) (0::rat) (modelPatterns m) = 0"
    using assms by (intro foldl_no_hit) simp
  moreover have "foldl (\<lambda>sc keyword. if js_includes filename (toLowerCase keyword) then sc + 1 / 10 else sc) (0::rat) (modelKeywords m) = 0"
    using assms by (intro foldl_no_hit) simp
  ultimately show ?thesis by (simp add: dc_calculateScore_def Let_def)
qed

lemma dc_bestModel_none:
  assumes "\<forall>(t, m) \<in> set ms. dc_calculateScore filename m = 0"
    and "0 \<le> dc_confidence best"
  shows "dc_bestModel ms filename best = best"
  using assms by (induction ms) (auto simp: Let_def)

lemma dc_classify_none:
  assumes "\<forall>(t, m) \<in> set dc_models. \<forall>k \<in> set (modelPatterns m @ modelKeywords m).
             \<not> js_includes (toLowerCase filename) (toLowerCase k)"
    and "dc_analyzeFileContent filename = \<lparr>dc_type = ''Unknown Document'', dc_confidence = 2 / 10\<rparr>"
  shows "dc_classify filename = \<lparr>dc_type = ''General Legal Document'', dc_confidence = 3 / 10\<rparr>"
proof -
  have "\<forall>(t, m) \<in> set dc_models. dc_calculateScore (toLowerCase filename) m = 0"
    using assms(1) by (auto intro!: dc_calculateScore_none)
  then have "dc_bestModel dc_models (toLowerCase filename)
        \<lparr>dc_type = ''Unknown Document'', dc_confidence = 3 / 10\<rparr>
      = \<lparr>dc_type = ''Unknown Document'', dc_confidence = 3 / 10\<rparr>"
    by (rule dc_bestModel_none) simp
  then show ?thesis
    using assms(2) by (simp add: dc_classify_def Let_def)
qed

lemma fa_identify_none:
  assumes "\<forall>k \<in> set [''purchase'', ''sale'', ''aps'', ''lease'', ''rental'', ''n1'', ''n4'', ''ltb''].
             \<not> js_includes (toLowerCase filename) k"
  shows "fa_identifyDocumentType text filename
     = \<lparr>documentType = ''Legal Document'', confidence = 60 / 100, jurisdiction = ''Ontario''\<rparr>"
  using assms by (simp add: fa_identifyDocumentType_def Let_def)

lemma initial_empty_text:
  "\<forall>(name, pat) \<in> set initializeDocumentDatabase.
      (\<forall>ind \<in> set (visualIndicators pat). \<not> js_includes (toUpperCase []) ind)
    \<and> (\<forall>r \<in> set (textPatterns pat). \<not> fst (regexTest r []))"
  by code_simp

lemma ai_unknown_type_has_no_profile:
  "find (\<lambda>p. patDocumentType p = ''Unknown Document'') (map snd (documentPatterns newAnalyzer)) = None"
  by (simp add: newAnalyzer_def initializeDocumentDatabase_def ai_apsPattern_def ai_a2Pattern_def
      ai_l1Pattern_def ai_leasePattern_def ai_mortgagePattern_def ai_insurancePattern_def)

lemma fa_empty_text_score: "score (fa_fieldCompleteness fa_aps []) = 0"
  by code_simp

lemma fa_docConfig_legal: "fa_docConfig ''Legal Document'' = Some fa_aps"
  by code_simp

subsection \<open>Status buckets\<close>

lemma fa_completenessStatus_iff:
  "(fa_completenessStatus sc = ''Complete'') = (90 \<le> sc)"
  "(fa_completenessStatus sc = ''Mostly Complete'') = (70 \<le> sc \<and> sc < 90)"
  "(fa_completenessStatus sc = ''Partially Complete'') = (50 \<le> sc \<and> sc < 70)"
  "(fa_completenessStatus sc = ''Incomplete'') = (sc < 50)"
  by (auto simp: fa_completenessStatus_def)

lemma ai_completenessStatus_iff:
  "(ai_completenessStatus p = ''Complete'') = (100 \<le> p)"
  "(ai_completenessStatus p = ''Mostly Complete'') = (80 \<le> p \<and> p < 100)"
  "(ai_completenessStatus p = ''Partially Complete'') = (50 \<le> p \<and> p < 80)"
  "(ai_completenessStatus p = ''Incomplete'') = (p < 50)"
  by (auto simp: ai_completenessStatus_def)

lemma fa_validity_score_90:
  assumes "score (fa_validity cfg text) = 90"
  shows "status (fa_validity cfg text) = ''Valid''"
proof -
  let ?k = "length (filter (\<lambda>role. \<not> fa_checkSignature text role) (requiredSignatures (validityRules cfg)))"
  from assms have "100 - 20 * int ?k - (if fa_hasDate text then 0 else 10) = 90"
    by (simp add: fa_validity_score)
  then have "?k = 0" by (auto split: if_splits) presburger
  then have "issues (fa_validity cfg text) = []"
    by (simp add: fa_validity_issues)
  with assms show ?thesis by (simp add: fa_validity_status)
qed

subsection \<open>The chat\<close>

lemma startsWith_append: "startsWith (p @ s) p"
  by (induction p) auto

lemma js_includes_middle: "js_includes (a @ v @ b) v"
proof (induction a)
  case Nil
  show ?case
  proof (cases "v @ b")
    case Nil
    then show ?thesis by simp
  next
    case (Cons x xs)
    then have "js_includes (v @ b) v = (startsWith (v @ b) v \<or> js_includes xs v)"
      by simp
    then show ?thesis by (simp add: startsWith_append)
  qed
next
  case (Cons x a)
  then show ?case by simp
qed

lemma map_of_setIfTruthy_other:
  "k \<noteq> key \<Longrightarrow> map_of (setIfTruthy key v fs) k = map_of fs k"
  by (simp add: setIfTruthy_def map_add_def split: option.splits)

lemma map_of_setIfTruthy_same:
  "map_of fs key = None \<Longrightarrow>
     map_of (setIfTruthy key v fs) key = (case v of None \<Rightarrow> None | Some x \<Rightarrow> if x = [] then None else Some x)"
  by (simp add: setIfTruthy_def map_add_def split: option.splits)

lemma keyFields_purchasePrice:
  "map_of (chat_extractKeyFields d) ''purchasePrice''
     = (case dd_purchasePrice d of None \<Rightarrow> None | Some x \<Rightarrow> if x = [] then None else Some x)"
  by (simp add: chat_extractKeyFields_def map_of_setIfTruthy_other map_of_setIfTruthy_same)

lemma chat_classify_price_question:
  "chat_classifyQuestion ''What is the purchase price?'' = ''financial''"
  by code_simp

lemma startsWith_appendI: "startsWith s p \<Longrightarrow> startsWith (s @ t) p"
  by (induction s p rule: startsWith.induct) auto

lemma js_includes_empty: "js_includes t []"
  by (cases t) auto

lemma js_includes_appendI: "js_includes s v \<Longrightarrow> js_includes (s @ t) v"
proof (induction s)
  case Nil
  then show ?case by (simp add: js_includes_empty)
next
  case (Cons a s)
  from Cons.prems have "startsWith (a # s) v \<or> js_includes s v" by simp
  then show ?case
  proof
    assume "startsWith (a # s) v"
    then have "startsWith ((a # s) @ t) v" by (rule startsWith_appendI)
    then show ?thesis by simp
  next
    assume "js_includes s v"
    then have "js_includes (s @ t) v" by (rule Cons.IH)
    then show ?thesis by simp
  qed
qed

lemma chat_financial_includes_price:
  assumes "map_of (keyFields ctx) ''purchasePrice'' = Some v"
  shows "js_includes (chat_generateFinancialResponse ctx) v"
proof -
  define r1 where "r1 = (''## Financial Information'' @ [CHR 0x0A, CHR 0x0A])
      @ ''**Purchase Price**: '' @ v @ [CHR 0x0A, CHR 0x0A]"
  define r2 where "r2 = (case map_of (keyFields ctx) ''depositAmount'' of
                  Some w \<Rightarrow> r1 @ ''**Deposit Amount**: '' @ w @ [CHR 0x0A, CHR 0x0A]
                | None \<Rightarrow> r1)"
  define r3 where "r3 = (case map_of (keyFields ctx) ''rentAmount'' of
                  Some w \<Rightarrow> r2 @ ''**Rent Amount**: '' @ w @ [CHR 0x0A, CHR 0x0A]
                | None \<Rightarrow> r2)"
  have "js_includes (((''## Financial Information'' @ [CHR 0x0A, CHR 0x0A]) @ ''**Purchase Price**: '')
      @ v @ [CHR 0x0A, CHR 0x0A]) v"
    by (rule js_includes_middle)
  then have i1: "js_includes r1 v" by (simp add: r1_def)
  have i2: "js_includes r2 v"
    unfolding r2_def using i1 by (auto split: option.splits intro: js_includes_appendI)
  have i3: "js_includes r3 v"
    unfolding r3_def using i2 by (auto split: option.splits intro: js_includes_appendI)
  have "chat_generateFinancialResponse ctx = r3"
    using assms
    by (simp add: chat_generateFinancialResponse_def Let_def r1_def r2_def r3_def split: option.splits)
  with i3 show ?thesis by simp
qed

lemma qa_price_question_generic:
  "qa_answerPart ''What is the purchase price?'' docType ed
     = ''Based on the document analysis, I can provide information about the document type, completeness, and validity. Please ask specific questions about what you need to know.''"
proof -
  have "\<not> js_includes (toLowerCase ''What is the purchase price?'') ''document''"
    and "\<not> js_includes (toLowerCase ''What is the purchase price?'') ''missing''"
    and "\<not> js_includes (toLowerCase ''What is the purchase price?'') ''incomplete''"
    and "\<not> js_includes (toLowerCase ''What is the purchase price?'') ''valid''"
    and "\<not> js_includes (toLowerCase ''What is the purchase price?'') ''ready''"
    by code_simp+
  then show ?thesis by (simp add: qa_answerPart_def Let_def)
qed

section \<open>The claims\<close>

text \<open>
  C1. In the unweighted variants the completeness score is
  \<open>round (100 * presentRequiredCount / totalRequiredCount)\<close>, where the present fields are
  the required fields whose regex matches the text and the total is not zero, and whenever
  every required field present in a first text is present in a second one, the second score
  is at least the first. This holds for \<open>checkFieldCompleteness\<close> of function-app.js, for
  every text and every document type that is not a name inherited from
  \<open>Object.prototype\<close>, and for \<open>analyzeFieldCompleteness\<close> of ai-document-analyzer.js, for
  every text and every document type that has a profile in the database the constructor
  builds, whose profiles have between 5 and 7 required fields.
\<close>

theorem C1_unweighted_completeness_score:
  "(docType \<notin> set objectPrototypeNames \<longrightarrow>
      (\<exists>cfg. fa_docConfig docType = Some cfg \<and> requiredFields cfg \<noteq> []
         \<and> fa_checkFieldCompleteness text docType = Inr (fa_fieldCompleteness cfg text)
         \<and> presentRequired (fa_fieldCompleteness cfg text)
             = filter (fa_isFieldPresent text) (requiredFields cfg)
         \<and> score (fa_fieldCompleteness cfg text)
             = round (100 * rat_of_nat (length (presentRequired (fa_fieldCompleteness cfg text)))
                       / rat_of_nat (length (requiredFields cfg)))
         \<and> (\<forall>text2. (\<forall>f \<in> set (requiredFields cfg).
                         fa_isFieldPresent text f \<longrightarrow> fa_isFieldPresent text2 f)
               \<longrightarrow> score (fa_fieldCompleteness cfg text) \<le> score (fa_fieldCompleteness cfg text2))))
   \<and> (\<forall>(a::analyzer) pat.
        documentPatterns a = initializeDocumentDatabase
          \<and> find (\<lambda>p. patDocumentType p = docType) (map snd (documentPatterns a)) = Some pat
        \<longrightarrow> 5 \<le> length (patRequiredFields pat) \<and> length (patRequiredFields pat) \<le> 7
          \<and> presentRequired (ai_analyzeFieldCompleteness a text docType)
              = filter (ai_fieldFound text) (patRequiredFields pat)
          \<and> score (ai_analyzeFieldCompleteness a text docType)
              = round (100 * rat_of_nat (length (presentRequired (ai_analyzeFieldCompleteness a text docType)))
                        / rat_of_nat (length (patRequiredFields pat)))
          \<and> (\<forall>text2. (\<forall>f \<in> set (patRequiredFields pat).
                          ai_fieldFound text f \<longrightarrow> ai_fieldFound text2 f)
                \<longrightarrow> score (ai_analyzeFieldCompleteness a text docType)
                      \<le> score (ai_analyzeFieldCompleteness a text2 docType)))"
proof (intro conjI impI allI)
  assume h: "docType \<notin> set objectPrototypeNames"
  from h obtain cfg where cfg: "fa_docConfig docType = Some cfg"
    using fa_docConfig_cases by blast
  have nonempty: "requiredFields cfg \<noteq> []"
    using cfg by (rule fa_requiredFields_nonempty)
  have run: "fa_checkFieldCompleteness text docType = Inr (fa_fieldCompleteness cfg text)"
    by (simp add: fa_checkFieldCompleteness_def cfg)
  have formula: "score (fa_fieldCompleteness cfg text)
         = round (100 * rat_of_nat (length (presentRequired (fa_fieldCompleteness cfg text)))
                   / rat_of_nat (length (requiredFields cfg)))"
    by (simp add: fa_fieldCompleteness_score fa_fieldCompleteness_present mathRound_round mult.commute)
  have mono: "score (fa_fieldCompleteness cfg text) \<le> score (fa_fieldCompleteness cfg text2)"
    if sub: "\<forall>f \<in> set (requiredFields cfg). fa_isFieldPresent text f \<longrightarrow> fa_isFieldPresent text2 f"
    for text2
  proof -
    have "length (filter (fa_isFieldPresent text) (requiredFields cfg))
            \<le> length (filter (fa_isFieldPresent text2) (requiredFields cfg))"
      using sub by (intro filter_length_mono) blast
    then show ?thesis
      unfolding fa_fieldCompleteness_score by (rule percent_mono)
  qed
  from cfg nonempty run formula mono fa_fieldCompleteness_present
  show "\<exists>cfg. fa_docConfig docType = Some cfg \<and> requiredFields cfg \<noteq> []
         \<and> fa_checkFieldCompleteness text docType = Inr (fa_fieldCompleteness cfg text)
         \<and> presentRequired (fa_fieldCompleteness cfg text)
             = filter (fa_isFieldPresent text) (requiredFields cfg)
         \<and> score (fa_fieldCompleteness cfg text)
             = round (100 * rat_of_nat (length (presentRequired (fa_fieldCompleteness cfg text)))
                       / rat_of_nat (length (requiredFields cfg)))
         \<and> (\<forall>text2. (\<forall>f \<in> set (requiredFields cfg).
                         fa_isFieldPresent text f \<longrightarrow> fa_isFieldPresent text2 f)
               \<longrightarrow> score (fa_fieldCompleteness cfg text) \<le> score (fa_fieldCompleteness cfg text2))"
    by blast
next
  fix a :: analyzer and pat
  assume shipped: "documentPatterns a = initializeDocumentDatabase
          \<and> find (\<lambda>p. patDocumentType p = docType) (map snd (documentPatterns a)) = Some pat"
  then have f: "find (\<lambda>p. patDocumentType p = docType) (map snd (documentPatterns a)) = Some pat"
    by (rule conjunct2)
  from shipped have dp: "documentPatterns a = initializeDocumentDatabase"
    by (rule conjunct1)
  from f have "pat \<in> set (map snd (documentPatterns a))"
    by (rule find_Some_mem)
  then have "pat \<in> set (map snd initializeDocumentDatabase)"
    unfolding dp .
  with shipped_profile_sizes
  have sz: "5 \<le> length (patRequiredFields pat) \<and> length (patRequiredFields pat) \<le> 7"
    by blast
  from sz show "5 \<le> length (patRequiredFields pat)" by simp
  from sz show "length (patRequiredFields pat) \<le> 7" by simp
  show "presentRequired (ai_analyzeFieldCompleteness a text docType)
              = filter (ai_fieldFound text) (patRequiredFields pat)"
    by (rule ai_completeness_score_formula(1) [OF f])
  show "score (ai_analyzeFieldCompleteness a text docType)
              = round (100 * rat_of_nat (length (presentRequired (ai_analyzeFieldCompleteness a text docType)))
                        / rat_of_nat (length (patRequiredFields pat)))"
    by (rule ai_completeness_score_formula(2) [OF f])
  fix text2
  assume "\<forall>f \<in> set (patRequiredFields pat). ai_fieldFound text f \<longrightarrow> ai_fieldFound text2 f"
  with f show "score (ai_analyzeFieldCompleteness a text docType)
                      \<le> score (ai_analyzeFieldCompleteness a text2 docType)"
    by (rule ai_completeness_score_mono)
qed

theorem C1_unweighted_completeness_score_witness:
  "''Residential Lease Agreement'' \<notin> set objectPrototypeNames
   \<and> filter (fa_isFieldPresent ''Tenant: A'') (requiredFields fa_lease) = [''tenantName'']
   \<and> filter (fa_isFieldPresent ''Tenant: A, Landlord: B'') (requiredFields fa_lease)
        = [''tenantName'', ''landlordName'']
   \<and> fa_checkFieldCompleteness ''Tenant: A'' ''Residential Lease Agreement''
        = Inr (fa_fieldCompleteness fa_lease ''Tenant: A'')
   \<and> score (fa_fieldCompleteness fa_lease ''Tenant: A'') = 17
   \<and> score (fa_fieldCompleteness fa_lease ''Tenant: A, Landlord: B'') = 33
   \<and> score (fa_fieldCompleteness fa_lease ''Tenant: A'')
        \<le> score (fa_fieldCompleteness fa_lease ''Tenant: A, Landlord: B'')
   \<and> documentPatterns newAnalyzer = initializeDocumentDatabase
   \<and> find (\<lambda>p. patDocumentType p = ''Residential Lease Agreement'')
        (map snd (documentPatterns newAnalyzer)) = Some ai_leasePattern
   \<and> length (patRequiredFields ai_leasePattern) = 7
   \<and> filter (ai_fieldFound ''Tenant: A'') (patRequiredFields ai_leasePattern)
        = [''tenantName'', ''leaseStartDate'', ''leaseEndDate'', ''securityDeposit'']
   \<and> filter (ai_fieldFound ''Tenant: A, Landlord: B'') (patRequiredFields ai_leasePattern)
        = [''tenantName'', ''landlordName'', ''leaseStartDate'', ''leaseEndDate'', ''securityDeposit'']
   \<and> score (ai_analyzeFieldCompleteness newAnalyzer ''Tenant: A'' ''Residential Lease Agreement'') = 57
   \<and> score (ai_analyzeFieldCompleteness newAnalyzer ''Tenant: A, Landlord: B''
        ''Residential Lease Agreement'') = 71
   \<and> score (ai_analyzeFieldCompleteness newAnalyzer ''Tenant: A'' ''Residential Lease Agreement'')
        \<le> score (ai_analyzeFieldCompleteness newAnalyzer ''Tenant: A, Landlord: B''
              ''Residential Lease Agreement'')"
proof -
  note inst = C1_unweighted_completeness_score [of "''Residential Lease Agreement''" "''Tenant: A''"]
  have h: "''Residential Lease Agreement'' \<notin> set objectPrototypeNames"
    by code_simp
  have c: "fa_docConfig ''Residential Lease Agreement'' = Some fa_lease"
    by code_simp
  have p1: "filter (fa_isFieldPresent ''Tenant: A'') (requiredFields fa_lease) = [''tenantName'']"
    by code_simp
  have p2: "filter (fa_isFieldPresent ''Tenant: A, Landlord: B'') (requiredFields fa_lease)
        = [''tenantName'', ''landlordName'']"
    by code_simp
  have sub: "\<forall>f \<in> set (requiredFields fa_lease).
      fa_isFieldPresent ''Tenant: A'' f \<longrightarrow> fa_isFieldPresent ''Tenant: A, Landlord: B'' f"
  proof (intro ballI impI)
    fix f assume "f \<in> set (requiredFields fa_lease)" and "fa_isFieldPresent ''Tenant: A'' f"
    then have "f \<in> set (filter (fa_isFieldPresent ''Tenant: A'') (requiredFields fa_lease))" by simp
    then have "f = ''tenantName''" unfolding p1 by simp
    moreover have "''tenantName'' \<in> set (filter (fa_isFieldPresent ''Tenant: A, Landlord: B'') (requiredFields fa_lease))"
      unfolding p2 by simp
    ultimately show "fa_isFieldPresent ''Tenant: A, Landlord: B'' f" by simp
  qed
  from inst h c
  have run: "fa_checkFieldCompleteness ''Tenant: A'' ''Residential Lease Agreement''
        = Inr (fa_fieldCompleteness fa_lease ''Tenant: A'')"
    and mono: "\<forall>text2. (\<forall>f \<in> set (requiredFields fa_lease). fa_isFieldPresent ''Tenant: A'' f \<longrightarrow> fa_isFieldPresent text2 f)
           \<longrightarrow> score (fa_fieldCompleteness fa_lease ''Tenant: A'') \<le> score (fa_fieldCompleteness fa_lease text2)"
    by auto
  from mono sub have le: "score (fa_fieldCompleteness fa_lease ''Tenant: A'')
        \<le> score (fa_fieldCompleteness fa_lease ''Tenant: A, Landlord: B'')" by blast
  have s1: "score (fa_fieldCompleteness fa_lease ''Tenant: A'') = 17"
    unfolding fa_fieldCompleteness_score p1 by code_simp
  have s2: "score (fa_fieldCompleteness fa_lease ''Tenant: A, Landlord: B'') = 33"
    unfolding fa_fieldCompleteness_score p2 by code_simp
  have f: "find (\<lambda>p. patDocumentType p = ''Residential Lease Agreement'')
        (map snd (documentPatterns newAnalyzer)) = Some ai_leasePattern"
    by (simp add: newAnalyzer_def initializeDocumentDatabase_def ai_apsPattern_def ai_a2Pattern_def
        ai_l1Pattern_def ai_leasePattern_def)
  have ne: "documentPatterns newAnalyzer = initializeDocumentDatabase"
    by (simp add: newAnalyzer_def)
  have len: "length (patRequiredFields ai_leasePattern) = 7"
    by (simp add: ai_leasePattern_def)
  have q1: "filter (ai_fieldFound ''Tenant: A'') (patRequiredFields ai_leasePattern)
        = [''tenantName'', ''leaseStartDate'', ''leaseEndDate'', ''securityDeposit'']"
    by code_simp
  have q2: "filter (ai_fieldFound ''Tenant: A, Landlord: B'') (patRequiredFields ai_leasePattern)
        = [''tenantName'', ''landlordName'', ''leaseStartDate'', ''leaseEndDate'', ''securityDeposit'']"
    by code_simp
  have asub: "\<forall>f \<in> set (patRequiredFields ai_leasePattern).
      ai_fieldFound ''Tenant: A'' f \<longrightarrow> ai_fieldFound ''Tenant: A, Landlord: B'' f"
  proof (intro ballI impI)
    fix f assume "f \<in> set (patRequiredFields ai_leasePattern)" and "ai_fieldFound ''Tenant: A'' f"
    then have "f \<in> set (filter (ai_fieldFound ''Tenant: A'') (patRequiredFields ai_leasePattern))" by simp
    then have "f \<in> set (filter (ai_fieldFound ''Tenant: A, Landlord: B'') (patRequiredFields ai_leasePattern))"
      unfolding q1 q2 by auto
    then show "ai_fieldFound ''Tenant: A, Landlord: B'' f" by simp
  qed
  from inst f ne
  have amono: "\<forall>text2. (\<forall>f \<in> set (patRequiredFields ai_leasePattern).
                          ai_fieldFound ''Tenant: A'' f \<longrightarrow> ai_fieldFound text2 f)
                \<longrightarrow> score (ai_analyzeFieldCompleteness newAnalyzer ''Tenant: A'' ''Residential Lease Agreement'')
                      \<le> score (ai_analyzeFieldCompleteness newAnalyzer text2 ''Residential Lease Agreement'')"
    by blast
  from amono asub have ale: "score (ai_analyzeFieldCompleteness newAnalyzer ''Tenant: A'' ''Residential Lease Agreement'')
        \<le> score (ai_analyzeFieldCompleteness newAnalyzer ''Tenant: A, Landlord: B''
              ''Residential Lease Agreement'')"
    by blast
  have t1: "score (ai_analyzeFieldCompleteness newAnalyzer ''Tenant: A'' ''Residential Lease Agreement'') = 57"
    unfolding ai_completeness_found [OF f] q1 by code_simp
  have t2: "score (ai_analyzeFieldCompleteness newAnalyzer ''Tenant: A, Landlord: B''
        ''Residential Lease Agreement'') = 71"
    unfolding ai_completeness_found [OF f] q2 by code_simp
  from h p1 p2 run s1 s2 le ne f len q1 q2 t1 t2 ale show ?thesis by blast
qed

text \<open>
  C2. For every text, the validity checkers of function-app.js and simple-server.js
  return, for every document type that is not a name inherited from \<open>Object.prototype\<close>,
  a result whose score is at least 0 and at most 100, and so does the checker of
  AIDocumentAnalyzer for every document type, whichever penalties apply.
\<close>

theorem C2_validity_score_in_range:
  "(docType \<notin> set objectPrototypeNames \<longrightarrow>
       (\<exists>v. fa_checkDocumentValidity text docType = Inr v \<and> 0 \<le> score v \<and> score v \<le> 100)
     \<and> (\<exists>v. ss_checkDocumentValidity env text docType = Inr v \<and> 0 \<le> score v \<and> score v \<le> 100))
   \<and> 0 \<le> score (ai_analyzeValidity env text docType)
   \<and> score (ai_analyzeValidity env text docType) \<le> 100"
proof (intro conjI impI)
  assume h: "docType \<notin> set objectPrototypeNames"
  from h obtain cfg where cfg: "fa_docConfig docType = Some cfg"
    using fa_docConfig_cases by blast
  show "\<exists>v. fa_checkDocumentValidity text docType = Inr v \<and> 0 \<le> score v \<and> score v \<le> 100"
    using fa_validity_score_bounds [OF cfg, of "text"]
    by (simp add: fa_checkDocumentValidity_def cfg)
  from h obtain scfg where scfg: "ss_docConfig docType = Some scfg"
    using ss_docConfig_total by blast
  show "\<exists>v. ss_checkDocumentValidity env text docType = Inr v \<and> 0 \<le> score v \<and> score v \<le> 100"
    using ss_validity_score_bounds [OF scfg, of env "text"]
    by (simp add: ss_checkDocumentValidity_def scfg)
next
  show "0 \<le> score (ai_analyzeValidity env text docType)"
    and "score (ai_analyzeValidity env text docType) \<le> 100"
    using ai_validity_score_bounds [of env "text" docType] by simp_all
qed

theorem C2_validity_score_in_range_witness:
  "''Landlord and Tenant Board Form'' \<notin> set objectPrototypeNames
   \<and> (\<exists>v. fa_checkDocumentValidity ''dated 2023-01-01'' ''Landlord and Tenant Board Form'' = Inr v
          \<and> score v = 80 \<and> 0 \<le> score v \<and> score v \<le> 100)
   \<and> (\<exists>v. ss_checkDocumentValidity sampleEnv ''dated 2023-01-01'' ''Landlord and Tenant Board Form'' = Inr v
          \<and> score v = 50 \<and> 0 \<le> score v \<and> score v \<le> 100)
   \<and> score (ai_analyzeValidity sampleEnv ''dated 2023-01-01'' ''Landlord and Tenant Board Form'') = 80
   \<and> 0 \<le> score (ai_analyzeValidity sampleEnv ''dated 2023-01-01'' ''Landlord and Tenant Board Form'')
   \<and> score (ai_analyzeValidity sampleEnv ''dated 2023-01-01'' ''Landlord and Tenant Board Form'') \<le> 100"
proof -
  have h: "''Landlord and Tenant Board Form'' \<notin> set objectPrototypeNames"
    by code_simp
  note inst = C2_validity_score_in_range [of "''Landlord and Tenant Board Form''" "''dated 2023-01-01''" sampleEnv]
  have fa: "score (fa_validity fa_ltb ''dated 2023-01-01'') = 80" by code_simp
  have fa_run: "fa_checkDocumentValidity ''dated 2023-01-01'' ''Landlord and Tenant Board Form''
      = Inr (fa_validity fa_ltb ''dated 2023-01-01'')"
    by (simp add: fa_checkDocumentValidity_def fa_docConfig_def fa_documentTypes_def)
  have ss: "score (ss_validity sampleEnv ss_ltb ''dated 2023-01-01'' ''Landlord and Tenant Board Form'') = 50"
    by code_simp
  have ss_run: "ss_checkDocumentValidity sampleEnv ''dated 2023-01-01'' ''Landlord and Tenant Board Form''
      = Inr (ss_validity sampleEnv ss_ltb ''dated 2023-01-01'' ''Landlord and Tenant Board Form'')"
    by (simp add: ss_checkDocumentValidity_def ss_docConfig_ltb)
  have ai: "score (ai_analyzeValidity sampleEnv ''dated 2023-01-01'' ''Landlord and Tenant Board Form'') = 80"
    by code_simp
  from inst h fa fa_run ss ss_run ai show ?thesis by auto
qed

text \<open>
  C3, as the code has it. In \<open>checkFieldCompleteness\<close> of function-app.js the status is the
  bucket of the score: \<open>Complete\<close> exactly from 90 up, \<open>Mostly Complete\<close> from 70 to 89,
  \<open>Partially Complete\<close> from 50 to 69 and \<open>Incomplete\<close> below 50; and a result of
  \<open>checkDocumentValidity\<close> with score 90 has the status \<open>Valid\<close>. In
  \<open>analyzeFieldCompleteness\<close> of AIDocumentAnalyzer, for every profile of the database the
  constructor builds (each has at least one required field), the status is the bucket of
  the percentage before rounding, with other thresholds: \<open>Complete\<close> at 100, \<open>Mostly
  Complete\<close> from 80, \<open>Partially Complete\<close> from 50 and \<open>Incomplete\<close> below 50.
\<close>

theorem C3_status_buckets:
  "status (fa_fieldCompleteness cfg text) = fa_completenessStatus (score (fa_fieldCompleteness cfg text))
   \<and> (\<forall>sc. (fa_completenessStatus sc = ''Complete'') = (90 \<le> sc)
          \<and> (fa_completenessStatus sc = ''Mostly Complete'') = (70 \<le> sc \<and> sc < 90)
          \<and> (fa_completenessStatus sc = ''Partially Complete'') = (50 \<le> sc \<and> sc < 70)
          \<and> (fa_completenessStatus sc = ''Incomplete'') = (sc < 50))
   \<and> (score (fa_validity cfg text) = 90 \<longrightarrow> status (fa_validity cfg text) = ''Valid'')
   \<and> (\<forall>a docType pat.
         documentPatterns a = initializeDocumentDatabase
           \<and> find (\<lambda>p. patDocumentType p = docType) (map snd (documentPatterns a)) = Some pat
         \<longrightarrow> patRequiredFields pat \<noteq> []
           \<and> status (ai_analyzeFieldCompleteness a text docType)
               = ai_completenessStatus
                   (rat_of_nat (length (presentRequired (ai_analyzeFieldCompleteness a text docType)))
                      / rat_of_nat (length (patRequiredFields pat)) * 100))
   \<and> (\<forall>p. (ai_completenessStatus p = ''Complete'') = (100 \<le> p)
          \<and> (ai_completenessStatus p = ''Mostly Complete'') = (80 \<le> p \<and> p < 100)
          \<and> (ai_completenessStatus p = ''Partially Complete'') = (50 \<le> p \<and> p < 80)
          \<and> (ai_completenessStatus p = ''Incomplete'') = (p < 50))"
proof (intro conjI allI impI)
  show "status (fa_fieldCompleteness cfg text) = fa_completenessStatus (score (fa_fieldCompleteness cfg text))"
    by (rule fa_fieldCompleteness_status)
next
  assume "score (fa_validity cfg text) = 90"
  then show "status (fa_validity cfg text) = ''Valid''"
    by (rule fa_validity_score_90)
next
  fix a :: analyzer and docType pat
  assume shipped: "documentPatterns a = initializeDocumentDatabase
           \<and> find (\<lambda>p. patDocumentType p = docType) (map snd (documentPatterns a)) = Some pat"
  then have f: "find (\<lambda>p. patDocumentType p = docType) (map snd (documentPatterns a)) = Some pat"
    by (rule conjunct2)
  from shipped have dp: "documentPatterns a = initializeDocumentDatabase"
    by (rule conjunct1)
  from f have "pat \<in> set (map snd (documentPatterns a))"
    by (rule find_Some_mem)
  then have "pat \<in> set (map snd initializeDocumentDatabase)"
    unfolding dp .
  with shipped_profile_sizes have "5 \<le> length (patRequiredFields pat)"
    by blast
  then show "patRequiredFields pat \<noteq> []"
    by auto
  show "status (ai_analyzeFieldCompleteness a text docType)
               = ai_completenessStatus
                   (rat_of_nat (length (presentRequired (ai_analyzeFieldCompleteness a text docType)))
                      / rat_of_nat (length (patRequiredFields pat)) * 100)"
    by (simp add: ai_completeness_found [OF f])
qed (simp_all add: fa_completenessStatus_iff ai_completenessStatus_iff)

theorem C3_status_buckets_witness:
  "score (fa_validity fa_aps ''Buyer Signature Seller Signature'') = 90
   \<and> status (fa_validity fa_aps ''Buyer Signature Seller Signature'') = ''Valid''
   \<and> score (fa_fieldCompleteness fa_aps ''Buyer Signature Seller Signature'') = 33
   \<and> status (fa_fieldCompleteness fa_aps ''Buyer Signature Seller Signature'') = ''Incomplete''
   \<and> fa_completenessStatus 90 = ''Complete''
   \<and> fa_completenessStatus 89 = ''Mostly Complete''
   \<and> documentPatterns newAnalyzer = initializeDocumentDatabase
   \<and> find (\<lambda>p. patDocumentType p = ''Agreement of Purchase and Sale (APS)'')
        (map snd (documentPatterns newAnalyzer)) = Some ai_apsPattern
   \<and> presentRequired (ai_analyzeFieldCompleteness newAnalyzer ''Buyer Signature Seller Signature''
        ''Agreement of Purchase and Sale (APS)'') = [''buyerName'', ''sellerName'', ''irrevocableDate'']
   \<and> status (ai_analyzeFieldCompleteness newAnalyzer ''Buyer Signature Seller Signature''
        ''Agreement of Purchase and Sale (APS)'') = ''Incomplete''"
proof -
  note inst = C3_status_buckets [of fa_aps "''Buyer Signature Seller Signature''"]
  have s: "score (fa_validity fa_aps ''Buyer Signature Seller Signature'') = 90"
    by code_simp
  from inst s have v: "status (fa_validity fa_aps ''Buyer Signature Seller Signature'') = ''Valid''"
    by blast
  have c: "score (fa_fieldCompleteness fa_aps ''Buyer Signature Seller Signature'') = 33"
    by code_simp
  from inst have "status (fa_fieldCompleteness fa_aps ''Buyer Signature Seller Signature'')
      = fa_completenessStatus (score (fa_fieldCompleteness fa_aps ''Buyer Signature Seller Signature''))"
    by blast
  then have cs: "status (fa_fieldCompleteness fa_aps ''Buyer Signature Seller Signature'') = ''Incomplete''"
    unfolding c by (simp add: fa_completenessStatus_def)
  from inst have b90: "fa_completenessStatus 90 = ''Complete''" by simp
  from inst have b89: "fa_completenessStatus 89 = ''Mostly Complete''" by simp
  have f: "find (\<lambda>p. patDocumentType p = ''Agreement of Purchase and Sale (APS)'')
        (map snd (documentPatterns newAnalyzer)) = Some ai_apsPattern"
    by (simp add: newAnalyzer_def initializeDocumentDatabase_def ai_apsPattern_def)
  have p: "presentRequired (ai_analyzeFieldCompleteness newAnalyzer ''Buyer Signature Seller Signature''
        ''Agreement of Purchase and Sale (APS)'') = [''buyerName'', ''sellerName'', ''irrevocableDate'']"
    by code_simp
  have ne: "documentPatterns newAnalyzer = initializeDocumentDatabase"
    by (simp add: newAnalyzer_def)
  from inst ne f have "status (ai_analyzeFieldCompleteness newAnalyzer ''Buyer Signature Seller Signature''
        ''Agreement of Purchase and Sale (APS)'')
      = ai_completenessStatus
          (rat_of_nat (length (presentRequired (ai_analyzeFieldCompleteness newAnalyzer
              ''Buyer Signature Seller Signature'' ''Agreement of Purchase and Sale (APS)'')))
             / rat_of_nat (length (patRequiredFields ai_apsPattern)) * 100)"
    by blast
  then have a: "status (ai_analyzeFieldCompleteness newAnalyzer ''Buyer Signature Seller Signature''
        ''Agreement of Purchase and Sale (APS)'') = ''Incomplete''"
    unfolding p by (simp add: ai_apsPattern_def ai_completenessStatus_def)
  from s v c cs b90 b89 ne f p a show ?thesis by blast
qed

theorem C3_counterexample:
  "score (ai_analyzeFieldCompleteness newAnalyzer ''buyer: a seller: b deposit: 5''
            ''Agreement of Purchase and Sale (APS)'') = 71
   \<and> status (ai_analyzeFieldCompleteness newAnalyzer ''buyer: a seller: b deposit: 5''
            ''Agreement of Purchase and Sale (APS)'') = ''Partially Complete''
   \<and> status (ai_analyzeFieldCompleteness newAnalyzer ''buyer: a seller: b deposit: 5''
            ''Agreement of Purchase and Sale (APS)'') \<noteq> ''Mostly Complete''"
  by code_simp

text \<open>
  C4, as the code has it. When the text and the file name contain none of the indicators
  of any profile, \<open>classifyDocument\<close> of AIDocumentAnalyzer returns \<open>Unknown Document\<close>
  with confidence 0; when the file name contains none of the patterns and keywords of the
  models nor a substring that \<open>analyzeFileContent\<close> knows, \<open>classify\<close> of the ML plugins
  returns \<open>General Legal Document\<close> with confidence 0.3; and when the file name contains
  none of its eight keywords, \<open>identifyDocumentType\<close> of function-app.js returns
  \<open>Legal Document\<close> with confidence 0.60.
\<close>

theorem C4_no_indicator_fallback:
  "((\<forall>(name, pat) \<in> set (documentPatterns a).
        (\<forall>ind \<in> set (visualIndicators pat). \<not> js_includes (toUpperCase text) ind)
      \<and> (\<forall>r \<in> set (textPatterns pat). \<not> fst (regexTest r text))
      \<and> \<not> ai_filenameMatches pat filename)
     \<longrightarrow> documentType (fst (ai_classifyDocument a text filename)) = ''Unknown Document''
       \<and> confidence (fst (ai_classifyDocument a text filename)) = 0)
   \<and> ((\<forall>(t, m) \<in> set dc_models. \<forall>k \<in> set (modelPatterns m @ modelKeywords m).
          \<not> js_includes (toLowerCase filename) (toLowerCase k))
       \<and> dc_analyzeFileContent filename = \<lparr>dc_type = ''Unknown Document'', dc_confidence = 2 / 10\<rparr>
     \<longrightarrow> dc_classify filename = \<lparr>dc_type = ''General Legal Document'', dc_confidence = 3 / 10\<rparr>)
   \<and> ((\<forall>k \<in> set [''purchase'', ''sale'', ''aps'', ''lease'', ''rental'', ''n1'', ''n4'', ''ltb''].
          \<not> js_includes (toLowerCase filename) k)
     \<longrightarrow> fa_identifyDocumentType text filename
          = \<lparr>documentType = ''Legal Document'', confidence = 60 / 100, jurisdiction = ''Ontario''\<rparr>)"
proof (intro conjI impI)
  assume "\<forall>(name, pat) \<in> set (documentPatterns a).
        (\<forall>ind \<in> set (visualIndicators pat). \<not> js_includes (toUpperCase text) ind)
      \<and> (\<forall>r \<in> set (textPatterns pat). \<not> fst (regexTest r text))
      \<and> \<not> ai_filenameMatches pat filename"
  then have u: "fst (ai_classifyDocument a text filename) = ai_unknown"
    by (rule ai_classifyDocument_none)
  show "documentType (fst (ai_classifyDocument a text filename)) = ''Unknown Document''"
    and "confidence (fst (ai_classifyDocument a text filename)) = 0"
    unfolding u by (simp_all add: ai_unknown_def)
next
  assume "(\<forall>(t, m) \<in> set dc_models. \<forall>k \<in> set (modelPatterns m @ modelKeywords m).
          \<not> js_includes (toLowerCase filename) (toLowerCase k))
       \<and> dc_analyzeFileContent filename = \<lparr>dc_type = ''Unknown Document'', dc_confidence = 2 / 10\<rparr>"
  then show "dc_classify filename = \<lparr>dc_type = ''General Legal Document'', dc_confidence = 3 / 10\<rparr>"
    using dc_classify_none by blast
next
  assume "\<forall>k \<in> set [''purchase'', ''sale'', ''aps'', ''lease'', ''rental'', ''n1'', ''n4'', ''ltb''].
          \<not> js_includes (toLowerCase filename) k"
  then show "fa_identifyDocumentType text filename
          = \<lparr>documentType = ''Legal Document'', confidence = 60 / 100, jurisdiction = ''Ontario''\<rparr>"
    by (rule fa_identify_none)
qed

theorem C4_no_indicator_fallback_witness:
  "list_all (\<lambda>(name, pat).
        list_all (\<lambda>ind. \<not> js_includes (toUpperCase ''memo'') ind) (visualIndicators pat)
      \<and> list_all (\<lambda>r. \<not> fst (regexTest r ''memo'')) (textPatterns pat)
      \<and> \<not> ai_filenameMatches pat ''notes.txt'') (documentPatterns newAnalyzer)
   \<and> documentType (fst (ai_classifyDocument newAnalyzer ''memo'' ''notes.txt'')) = ''Unknown Document''
   \<and> confidence (fst (ai_classifyDocument newAnalyzer ''memo'' ''notes.txt'')) = 0
   \<and> list_all (\<lambda>(t, m). list_all (\<lambda>k. \<not> js_includes (toLowerCase ''notes.txt'') (toLowerCase k))
          (modelPatterns m @ modelKeywords m)) dc_models
   \<and> dc_analyzeFileContent ''notes.txt'' = \<lparr>dc_type = ''Unknown Document'', dc_confidence = 2 / 10\<rparr>
   \<and> dc_classify ''notes.txt'' = \<lparr>dc_type = ''General Legal Document'', dc_confidence = 3 / 10\<rparr>
   \<and> list_all (\<lambda>k. \<not> js_includes (toLowerCase ''notes.txt'') k)
        [''purchase'', ''sale'', ''aps'', ''lease'', ''rental'', ''n1'', ''n4'', ''ltb'']
   \<and> fa_identifyDocumentType ''memo'' ''notes.txt''
        = \<lparr>documentType = ''Legal Document'', confidence = 60 / 100, jurisdiction = ''Ontario''\<rparr>"
proof -
  have h1: "list_all (\<lambda>(name, pat).
        list_all (\<lambda>ind. \<not> js_includes (toUpperCase ''memo'') ind) (visualIndicators pat)
      \<and> list_all (\<lambda>r. \<not> fst (regexTest r ''memo'')) (textPatterns pat)
      \<and> \<not> ai_filenameMatches pat ''notes.txt'') (documentPatterns newAnalyzer)"
    by code_simp
  have h2: "list_all (\<lambda>(t, m). list_all (\<lambda>k. \<not> js_includes (toLowerCase ''notes.txt'') (toLowerCase k))
          (modelPatterns m @ modelKeywords m)) dc_models"
    by code_simp
  have h3: "dc_analyzeFileContent ''notes.txt'' = \<lparr>dc_type = ''Unknown Document'', dc_confidence = 2 / 10\<rparr>"
    by code_simp
  have h4: "list_all (\<lambda>k. \<not> js_includes (toLowerCase ''notes.txt'') k)
        [''purchase'', ''sale'', ''aps'', ''lease'', ''rental'', ''n1'', ''n4'', ''ltb'']"
    by code_simp
  from h1 have h1': "\<forall>(name, pat) \<in> set (documentPatterns newAnalyzer).
        (\<forall>ind \<in> set (visualIndicators pat). \<not> js_includes (toUpperCase ''memo'') ind)
      \<and> (\<forall>r \<in> set (textPatterns pat). \<not> fst (regexTest r ''memo''))
      \<and> \<not> ai_filenameMatches pat ''notes.txt''"
    by (auto simp: list_all_iff)
  from h2 have h2': "\<forall>(t, m) \<in> set dc_models. \<forall>k \<in> set (modelPatterns m @ modelKeywords m).
          \<not> js_includes (toLowerCase ''notes.txt'') (toLowerCase k)"
    by (auto simp: list_all_iff)
  from h4 have h4': "\<forall>k \<in> set [''purchase'', ''sale'', ''aps'', ''lease'', ''rental'', ''n1'', ''n4'', ''ltb''].
          \<not> js_includes (toLowerCase ''notes.txt'') k"
    by (simp only: list_all_iff)
  note inst = C4_no_indicator_fallback [of newAnalyzer "''memo''" "''notes.txt''"]
  from inst h1' have r1: "documentType (fst (ai_classifyDocument newAnalyzer ''memo'' ''notes.txt'')) = ''Unknown Document''
       \<and> confidence (fst (ai_classifyDocument newAnalyzer ''memo'' ''notes.txt'')) = 0"
    by blast
  from inst h2' h3 have r2: "dc_classify ''notes.txt'' = \<lparr>dc_type = ''General Legal Document'', dc_confidence = 3 / 10\<rparr>"
    by blast
  from inst h4' have r3: "fa_identifyDocumentType ''memo'' ''notes.txt''
        = \<lparr>documentType = ''Legal Document'', confidence = 60 / 100, jurisdiction = ''Ontario''\<rparr>"
    by blast
  from h1 h2 h3 h4 r1 r2 r3 show ?thesis by blast
qed

theorem C4_counterexample:
  "list_all (\<lambda>(name, pat).
        list_all (\<lambda>ind. \<not> js_includes (toUpperCase ''memo'') ind) (visualIndicators pat)
      \<and> list_all (\<lambda>r. \<not> fst (regexTest r ''memo'')) (textPatterns pat)
      \<and> \<not> ai_filenameMatches pat ''notes.txt'') (documentPatterns newAnalyzer)
   \<and> list_all (\<lambda>(t, m). list_all (\<lambda>k. \<not> js_includes (toLowerCase ''notes.txt'') (toLowerCase k))
          (modelPatterns m @ modelKeywords m)) dc_models
   \<and> list_all (\<lambda>k. \<not> js_includes (toLowerCase ''notes.txt'') k)
        [''purchase'', ''sale'', ''aps'', ''lease'', ''rental'', ''n1'', ''n4'', ''ltb'']
   \<and> documentType (fa_identifyDocumentType ''memo'' ''notes.txt'') = ''Legal Document''
   \<and> confidence (fa_identifyDocumentType ''memo'' ''notes.txt'') = 60 / 100
   \<and> \<not> confidence (fa_identifyDocumentType ''memo'' ''notes.txt'') \<le> 4 / 10"
  by code_simp

text \<open>
  C5, as the code has it. For the empty text and a file name that matches no indicator,
  \<open>classifyDocument\<close> of AIDocumentAnalyzer returns \<open>Unknown Document\<close> with confidence 0
  and the completeness score for that type is 0; \<open>identifyDocumentType\<close> of
  function-app.js returns \<open>Legal Document\<close> with confidence 0.60, and the completeness
  score for that type is 0 as well.
\<close>

theorem C5_empty_text:
  "((\<forall>(name, pat) \<in> set initializeDocumentDatabase. \<not> ai_filenameMatches pat filename)
     \<longrightarrow> documentType (fst (ai_classifyDocument newAnalyzer [] filename)) = ''Unknown Document''
       \<and> confidence (fst (ai_classifyDocument newAnalyzer [] filename)) = 0
       \<and> score (ai_analyzeFieldCompleteness newAnalyzer []
                  (documentType (fst (ai_classifyDocument newAnalyzer [] filename)))) = 0)
   \<and> ((\<forall>k \<in> set [''purchase'', ''sale'', ''aps'', ''lease'', ''rental'', ''n1'', ''n4'', ''ltb''].
          \<not> js_includes (toLowerCase filename) k)
     \<longrightarrow> fa_identifyDocumentType [] filename
          = \<lparr>documentType = ''Legal Document'', confidence = 60 / 100, jurisdiction = ''Ontario''\<rparr>
       \<and> (\<exists>r. fa_checkFieldCompleteness [] (documentType (fa_identifyDocumentType [] filename)) = Inr r
              \<and> score r = 0))"
proof (intro conjI impI)
  assume h: "\<forall>(name, pat) \<in> set initializeDocumentDatabase. \<not> ai_filenameMatches pat filename"
  have "\<forall>(name, pat) \<in> set (documentPatterns newAnalyzer).
        (\<forall>ind \<in> set (visualIndicators pat). \<not> js_includes (toUpperCase []) ind)
      \<and> (\<forall>r \<in> set (textPatterns pat). \<not> fst (regexTest r []))
      \<and> \<not> ai_filenameMatches pat filename"
    using h initial_empty_text by (fastforce simp: newAnalyzer_def)
  then have u: "fst (ai_classifyDocument newAnalyzer [] filename) = ai_unknown"
    by (rule ai_classifyDocument_none)
  show "documentType (fst (ai_classifyDocument newAnalyzer [] filename)) = ''Unknown Document''"
    and "confidence (fst (ai_classifyDocument newAnalyzer [] filename)) = 0"
    unfolding u by (simp_all add: ai_unknown_def)
  show "score (ai_analyzeFieldCompleteness newAnalyzer []
                  (documentType (fst (ai_classifyDocument newAnalyzer [] filename)))) = 0"
    unfolding u by (simp add: ai_unknown_def ai_completeness_unknown [OF ai_unknown_type_has_no_profile])
next
  assume h: "\<forall>k \<in> set [''purchase'', ''sale'', ''aps'', ''lease'', ''rental'', ''n1'', ''n4'', ''ltb''].
          \<not> js_includes (toLowerCase filename) k"
  then show i: "fa_identifyDocumentType [] filename
          = \<lparr>documentType = ''Legal Document'', confidence = 60 / 100, jurisdiction = ''Ontario''\<rparr>"
    by (rule fa_identify_none)
  show "\<exists>r. fa_checkFieldCompleteness [] (documentType (fa_identifyDocumentType [] filename)) = Inr r
              \<and> score r = 0"
    unfolding i by (simp add: fa_checkFieldCompleteness_def fa_docConfig_legal fa_empty_text_score)
qed

theorem C5_empty_text_witness:
  "list_all (\<lambda>(name, pat). \<not> ai_filenameMatches pat ''notes.txt'') initializeDocumentDatabase
   \<and> documentType (fst (ai_classifyDocument newAnalyzer [] ''notes.txt'')) = ''Unknown Document''
   \<and> confidence (fst (ai_classifyDocument newAnalyzer [] ''notes.txt'')) = 0
   \<and> score (ai_analyzeFieldCompleteness newAnalyzer []
              (documentType (fst (ai_classifyDocument newAnalyzer [] ''notes.txt'')))) = 0
   \<and> list_all (\<lambda>k. \<not> js_includes (toLowerCase ''notes.txt'') k)
        [''purchase'', ''sale'', ''aps'', ''lease'', ''rental'', ''n1'', ''n4'', ''ltb'']
   \<and> fa_identifyDocumentType [] ''notes.txt''
        = \<lparr>documentType = ''Legal Document'', confidence = 60 / 100, jurisdiction = ''Ontario''\<rparr>
   \<and> (\<exists>r. fa_checkFieldCompleteness [] (documentType (fa_identifyDocumentType [] ''notes.txt'')) = Inr r
          \<and> score r = 0)"
proof -
  have h1: "list_all (\<lambda>(name, pat). \<not> ai_filenameMatches pat ''notes.txt'') initializeDocumentDatabase"
    by code_simp
  have h2: "list_all (\<lambda>k. \<not> js_includes (toLowerCase ''notes.txt'') k)
        [''purchase'', ''sale'', ''aps'', ''lease'', ''rental'', ''n1'', ''n4'', ''ltb'']"
    by code_simp
  from h1 have h1': "\<forall>(name, pat) \<in> set initializeDocumentDatabase. \<not> ai_filenameMatches pat ''notes.txt''"
    by (auto simp: list_all_iff)
  from h2 have h2': "\<forall>k \<in> set [''purchase'', ''sale'', ''aps'', ''lease'', ''rental'', ''n1'', ''n4'', ''ltb''].
          \<not> js_includes (toLowerCase ''notes.txt'') k"
    by (simp only: list_all_iff)
  note inst = C5_empty_text [of "''notes.txt''"]
  from inst h1' have r1: "documentType (fst (ai_classifyDocument newAnalyzer [] ''notes.txt'')) = ''Unknown Document''
       \<and> confidence (fst (ai_classifyDocument newAnalyzer [] ''notes.txt'')) = 0
       \<and> score (ai_analyzeFieldCompleteness newAnalyzer []
                  (documentType (fst (ai_classifyDocument newAnalyzer [] ''notes.txt'')))) = 0"
    by blast
  from inst h2' have r2: "fa_identifyDocumentType [] ''notes.txt''
          = \<lparr>documentType = ''Legal Document'', confidence = 60 / 100, jurisdiction = ''Ontario''\<rparr>
       \<and> (\<exists>r. fa_checkFieldCompleteness [] (documentType (fa_identifyDocumentType [] ''notes.txt'')) = Inr r
              \<and> score r = 0)"
    by blast
  from h1 h2 r1 r2 show ?thesis by blast
qed

theorem C5_counterexample:
  "list_all (\<lambda>k. \<not> js_includes (toLowerCase ''notes.txt'') k)
        [''purchase'', ''sale'', ''aps'', ''lease'', ''rental'', ''n1'', ''n4'', ''ltb'']
   \<and> documentType (fa_identifyDocumentType [] ''notes.txt'') = ''Legal Document''
   \<and> confidence (fa_identifyDocumentType [] ''notes.txt'') = 60 / 100
   \<and> \<not> confidence (fa_identifyDocumentType [] ''notes.txt'') \<le> 3 / 10"
  by code_simp

text \<open>
  C6, as the code has it. For the question \<open>What is the purchase price?\<close> and every
  analysis result with a populated (truthy) \<open>purchasePrice\<close>, \<open>processQuestion\<close> of the
  enhanced chat system classifies the question as \<open>financial\<close> and its Markdown contains
  the value. The route \<open>/api/qa\<close> of function-app.js has no such intent: it answers this
  question with its summary and a fixed general text, and no answer of it depends on
  \<open>purchasePrice\<close>.
\<close>

theorem C6_price_question:
  "(dd_purchasePrice d = Some v \<and> v \<noteq> []
     \<longrightarrow> questionType (chat_processQuestion env others ''What is the purchase price?'' d) = ''financial''
       \<and> js_includes (answerMarkdown (chat_processQuestion env others ''What is the purchase price?'' d)) v)
   \<and> qa_answerMarkdown ''What is the purchase price?'' docType ed
       = qa_summary docType ed
         @ [CHR 0x0A] @ ''### Answer'' @ [CHR 0x0A, CHR 0x0A]
         @ ''Based on the document analysis, I can provide information about the document type, completeness, and validity. Please ask specific questions about what you need to know.''
         @ [CHR 0x0A, CHR 0x0A] @ ''### Next Steps'' @ [CHR 0x0A, CHR 0x0A]
         @ qa_nextSteps ed
   \<and> qa_answerMarkdown question docType (Some (x\<lparr>ed_purchasePrice := p\<rparr>))
       = qa_answerMarkdown question docType (Some x)"
proof (intro conjI impI)
  assume h: "dd_purchasePrice d = Some v \<and> v \<noteq> []"
  show "questionType (chat_processQuestion env others ''What is the purchase price?'' d) = ''financial''"
    by (simp add: chat_processQuestion_def chat_generateContextualResponse_def chat_classify_price_question)
  have "map_of (keyFields (chat_extractDocumentContext d)) ''purchasePrice'' = Some v"
    using h by (simp add: chat_extractDocumentContext_def keyFields_purchasePrice)
  then have "js_includes (chat_generateFinancialResponse (chat_extractDocumentContext d)) v"
    by (rule chat_financial_includes_price)
  then show "js_includes (answerMarkdown (chat_processQuestion env others ''What is the purchase price?'' d)) v"
    by (simp add: chat_processQuestion_def chat_generateContextualResponse_def chat_classify_price_question)
next
  show "qa_answerMarkdown ''What is the purchase price?'' docType ed
       = qa_summary docType ed
         @ [CHR 0x0A] @ ''### Answer'' @ [CHR 0x0A, CHR 0x0A]
         @ ''Based on the document analysis, I can provide information about the document type, completeness, and validity. Please ask specific questions about what you need to know.''
         @ [CHR 0x0A, CHR 0x0A] @ ''### Next Steps'' @ [CHR 0x0A, CHR 0x0A]
         @ qa_nextSteps ed"
    by (simp only: qa_answerMarkdown_def qa_price_question_generic)
next
  show "qa_answerMarkdown question docType (Some (x\<lparr>ed_purchasePrice := p\<rparr>))
       = qa_answerMarkdown question docType (Some x)"
    by (simp add: qa_answerMarkdown_def qa_summary_def qa_answerPart_def qa_nextSteps_def)
qed

theorem C6_price_question_witness:
  "dd_purchasePrice sampleData = Some ''$750,000''
   \<and> ''$750,000'' \<noteq> []
   \<and> questionType (chat_processQuestion sampleEnv (\<lambda>t q c. []) ''What is the purchase price?'' sampleData)
        = ''financial''
   \<and> js_includes (answerMarkdown
        (chat_processQuestion sampleEnv (\<lambda>t q c. []) ''What is the purchase price?'' sampleData)) ''$750,000''
   \<and> answerMarkdown (chat_processQuestion sampleEnv (\<lambda>t q c. []) ''What is the purchase price?'' sampleData)
        = ''## Financial Information'' @ [CHR 0x0A, CHR 0x0A]
          @ ''**Purchase Price**: $750,000'' @ [CHR 0x0A, CHR 0x0A]
          @ ''**Deposit Amount**: $37,500'' @ [CHR 0x0A, CHR 0x0A]"
proof -
  have h: "dd_purchasePrice sampleData = Some ''$750,000'' \<and> ''$750,000'' \<noteq> []"
    by (simp add: sampleData_def)
  from C6_price_question [of sampleData "''$750,000''" sampleEnv "\<lambda>t q c. []"] h
  have r: "questionType (chat_processQuestion sampleEnv (\<lambda>t q c. []) ''What is the purchase price?'' sampleData)
        = ''financial''
   \<and> js_includes (answerMarkdown
        (chat_processQuestion sampleEnv (\<lambda>t q c. []) ''What is the purchase price?'' sampleData)) ''$750,000''"
    by blast
  have a: "answerMarkdown (chat_processQuestion sampleEnv (\<lambda>t q c. []) ''What is the purchase price?'' sampleData)
        = ''## Financial Information'' @ [CHR 0x0A, CHR 0x0A]
          @ ''**Purchase Price**: $750,000'' @ [CHR 0x0A, CHR 0x0A]
          @ ''**Deposit Amount**: $37,500'' @ [CHR 0x0A, CHR 0x0A]"
    by code_simp
  from h r a show ?thesis by blast
qed

theorem C6_counterexample:
  "ed_purchasePrice sampleExtracted = Some ''$750,000''
   \<and> \<not> js_includes (qa_answerMarkdown ''What is the purchase price?''
          ''Agreement of Purchase and Sale (APS)'' (Some sampleExtracted)) ''$750,000''"
  by code_simp

text \<open>
  C7. For every document type that is not a name inherited from \<open>Object.prototype\<close>:
  in function-app.js the issues of the validity check are exactly the messages
  \<open>Missing required signature: role\<close> of the required roles whose signature regex
  does not match the text, in the order of the profile, and the score is 100 less 20
  for each of them (and less 10 when the text has no date); in simple-server.js the
  check is the chain of its stages, and the signature stage appends the same messages
  to the issues and takes 20 for each from the score, whatever the result was before
  it. A role whose regex matches adds no issue and costs nothing.
\<close>

theorem C7_missing_signature_penalty:
  assumes "docType \<notin> set objectPrototypeNames"
  shows "(\<exists>cfg. fa_docConfig docType = Some cfg
            \<and> fa_checkDocumentValidity text docType = Inr (fa_validity cfg text)
            \<and> issues (fa_validity cfg text)
                = map (\<lambda>role. ''Missing required signature: '' @ role)
                      (filter (\<lambda>role. \<not> fa_checkSignature text role)
                              (requiredSignatures (validityRules cfg)))
            \<and> score (fa_validity cfg text)
                = 100 - 20 * int (length (filter (\<lambda>role. \<not> fa_checkSignature text role)
                                                 (requiredSignatures (validityRules cfg))))
                      - (if fa_hasDate text then 0 else 10))
       \<and> (\<exists>cfg. ss_docConfig docType = Some cfg
            \<and> ss_checkDocumentValidity env text docType
                = Inr (ss_finalStatus (ss_checkFormNumber (validityRules cfg) text docType
                        (ss_checkDeposit env (validityRules cfg) text docType
                          (ss_checkSignatures text (requiredSignatures (validityRules cfg))
                            (ss_checkAge env (validityRules cfg) text
                               (ss_initialCheck (validityRules cfg)))))))
            \<and> (\<forall>v. issues (ss_checkSignatures text (requiredSignatures (validityRules cfg)) v)
                      = issues v @ map (\<lambda>role. ''Missing required signature: '' @ role)
                          (filter (\<lambda>role. \<not> ss_checkSignature text role)
                                  (requiredSignatures (validityRules cfg)))
                   \<and> score (ss_checkSignatures text (requiredSignatures (validityRules cfg)) v)
                      = score v - 20 * int (length (filter (\<lambda>role. \<not> ss_checkSignature text role)
                                                           (requiredSignatures (validityRules cfg))))))"
proof -
  from assms obtain cfg where cfg: "fa_docConfig docType = Some cfg"
    using fa_docConfig_cases by blast
  have fa_run: "fa_checkDocumentValidity text docType = Inr (fa_validity cfg text)"
    by (simp add: fa_checkDocumentValidity_def cfg)
  from assms obtain scfg where scfg: "ss_docConfig docType = Some scfg"
    using ss_docConfig_total by blast
  have ss_run: "ss_checkDocumentValidity env text docType
      = Inr (ss_finalStatus (ss_checkFormNumber (validityRules scfg) text docType
                        (ss_checkDeposit env (validityRules scfg) text docType
                          (ss_checkSignatures text (requiredSignatures (validityRules scfg))
                            (ss_checkAge env (validityRules scfg) text
                               (ss_initialCheck (validityRules scfg)))))))"
    by (simp add: ss_checkDocumentValidity_def scfg ss_validity_unfold)
  from cfg fa_run fa_validity_issues [of cfg "text"] fa_validity_score [of cfg "text"]
  have part1: "\<exists>cfg. fa_docConfig docType = Some cfg
            \<and> fa_checkDocumentValidity text docType = Inr (fa_validity cfg text)
            \<and> issues (fa_validity cfg text)
                = map (\<lambda>role. ''Missing required signature: '' @ role)
                      (filter (\<lambda>role. \<not> fa_checkSignature text role)
                              (requiredSignatures (validityRules cfg)))
            \<and> score (fa_validity cfg text)
                = 100 - 20 * int (length (filter (\<lambda>role. \<not> fa_checkSignature text role)
                                                 (requiredSignatures (validityRules cfg))))
                      - (if fa_hasDate text then 0 else 10)"
    by blast
  from scfg ss_run ss_checkSignatures_issues ss_checkSignatures_score
  have part2: "\<exists>cfg. ss_docConfig docType = Some cfg
            \<and> ss_checkDocumentValidity env text docType
                = Inr (ss_finalStatus (ss_checkFormNumber (validityRules cfg) text docType
                        (ss_checkDeposit env (validityRules cfg) text docType
                          (ss_checkSignatures text (requiredSignatures (validityRules cfg))
                            (ss_checkAge env (validityRules cfg) text
                               (ss_initialCheck (validityRules cfg)))))))
            \<and> (\<forall>v. issues (ss_checkSignatures text (requiredSignatures (validityRules cfg)) v)
                      = issues v @ map (\<lambda>role. ''Missing required signature: '' @ role)
                          (filter (\<lambda>role. \<not> ss_checkSignature text role)
                                  (requiredSignatures (validityRules cfg)))
                   \<and> score (ss_checkSignatures text (requiredSignatures (validityRules cfg)) v)
                      = score v - 20 * int (length (filter (\<lambda>role. \<not> ss_checkSignature text role)
                                                           (requiredSignatures (validityRules cfg)))))"
    by blast
  from part1 part2 show ?thesis by blast
qed

theorem C7_missing_signature_penalty_witness:
  "''Agreement of Purchase and Sale (APS)'' \<notin> set objectPrototypeNames
   \<and> fa_checkSignature ''Buyer Signature: x, dated'' ''buyer''
   \<and> \<not> fa_checkSignature ''Buyer Signature: x, dated'' ''seller''
   \<and> fa_checkDocumentValidity ''Buyer Signature: x, dated'' ''Agreement of Purchase and Sale (APS)''
        = Inr (fa_validity fa_aps ''Buyer Signature: x, dated'')
   \<and> issues (fa_validity fa_aps ''Buyer Signature: x, dated'') = [''Missing required signature: seller'']
   \<and> score (fa_validity fa_aps ''Buyer Signature: x, dated'') = 80
   \<and> issues (ss_checkSignatures ''Buyer Signature: x, dated'' (requiredSignatures (validityRules ss_aps))
                (ss_initialCheck (validityRules ss_aps))) = [''Missing required signature: seller'']
   \<and> score (ss_checkSignatures ''Buyer Signature: x, dated'' (requiredSignatures (validityRules ss_aps))
                (ss_initialCheck (validityRules ss_aps))) = 80"
proof -
  have h: "''Agreement of Purchase and Sale (APS)'' \<notin> set objectPrototypeNames"
    by code_simp
  have b: "fa_checkSignature ''Buyer Signature: x, dated'' ''buyer''" by code_simp
  have s: "\<not> fa_checkSignature ''Buyer Signature: x, dated'' ''seller''" by code_simp
  have d: "fa_hasDate ''Buyer Signature: x, dated''" by code_simp
  have c1: "fa_docConfig ''Agreement of Purchase and Sale (APS)'' = Some fa_aps"
    by (simp add: fa_docConfig_def fa_documentTypes_def)
  have r1: "requiredSignatures (validityRules fa_aps) = [''buyer'', ''seller'']"
    by (simp add: fa_aps_def)
  have r2: "requiredSignatures (validityRules ss_aps) = [''buyer'', ''seller'']"
    by (simp add: ss_aps_def)
  have i0: "issues (ss_initialCheck (validityRules ss_aps)) = []"
    and s0: "score (ss_initialCheck (validityRules ss_aps)) = 100"
    by (simp_all add: ss_initialCheck_def)
  from C7_missing_signature_penalty [OF h, of "''Buyer Signature: x, dated''" sampleEnv]
  show ?thesis
    using h b s d by (simp add: c1 ss_docConfig_aps r1 r2 i0 s0 ss_checkSignature_def)
qed

text \<open>
  C8. The profile table of AIDocumentAnalyzer holds regex objects, and a test of a
  regex is the one way in which an analysis could change the table. No regex of the
  table is global, so for every analyzer whose table has no global regex, every text
  and every file name: \<open>classifyDocument\<close> leaves the analyzer as it is, a second call
  returns the same result, and \<open>analyzeDocument\<close>, which appends to the learning
  history, leaves the pattern tables as they are. The field-completeness and validity
  checks take the table as an argument and return none. The tables of the other
  analyzers are constants.
\<close>

theorem C8_profile_tables_not_mutated:
  assumes "\<forall>(name, pat) \<in> set (documentPatterns a). \<forall>r \<in> set (textPatterns pat). \<not> global r"
  shows "snd (ai_classifyDocument a text filename) = a
     \<and> fst (ai_classifyDocument (snd (ai_classifyDocument a text filename)) text filename)
         = fst (ai_classifyDocument a text filename)
     \<and> documentPatterns (snd (ai_analyzeDocument env a fileName filename)) = documentPatterns a
     \<and> fieldPatterns (snd (ai_analyzeDocument env a fileName filename)) = fieldPatterns a"
  using ai_classifyDocument_frame [OF assms] ai_analyzeDocument_frame [OF assms] by simp

theorem C8_profile_tables_not_mutated_witness:
  "documentPatterns newAnalyzer = initializeDocumentDatabase
   \<and> list_all (\<lambda>(name, pat). list_all (\<lambda>r. \<not> global r) (textPatterns pat)) (documentPatterns newAnalyzer)
   \<and> snd (ai_classifyDocument newAnalyzer ''Form A2'' ''notes.txt'') = newAnalyzer
   \<and> fst (ai_classifyDocument (snd (ai_classifyDocument newAnalyzer ''Form A2'' ''notes.txt''))
          ''Form A2'' ''notes.txt'')
       = fst (ai_classifyDocument newAnalyzer ''Form A2'' ''notes.txt'')
   \<and> documentPatterns (snd (ai_analyzeDocument sampleEnv newAnalyzer ''lease.pdf'' ''notes.txt''))
       = initializeDocumentDatabase
   \<and> fieldPatterns (snd (ai_analyzeDocument sampleEnv newAnalyzer ''lease.pdf'' ''notes.txt'')) = []"
proof -
  have d: "documentPatterns newAnalyzer = initializeDocumentDatabase"
    and f: "fieldPatterns newAnalyzer = []"
    by (simp_all add: newAnalyzer_def)
  have h: "\<forall>(name, pat) \<in> set (documentPatterns newAnalyzer). \<forall>r \<in> set (textPatterns pat). \<not> global r"
    unfolding d by (rule initial_patterns_not_global)
  then have h': "list_all (\<lambda>(name, pat). list_all (\<lambda>r. \<not> global r) (textPatterns pat)) (documentPatterns newAnalyzer)"
    by (auto simp: list_all_iff)
  from C8_profile_tables_not_mutated [OF h, of "''Form A2''" "''notes.txt''" sampleEnv "''lease.pdf''"]
    d f h'
  show ?thesis by simp
qed

text \<open>
  C9. In AIDocumentAnalyzer a required field that has no entry in the field-pattern
  table (\<open>irrevocableDate\<close> of the APS profile is one; no field name of the database
  is a name inherited from \<open>Object.prototype\<close>) gets the default pattern list
  \<open>[/.*/i]\<close>, which matches every text, the empty one too. So for every text the field
  is found, and whenever a profile lists it as required the analysis reports it among
  the present fields and never among the missing ones.
\<close>

theorem C9_unlisted_field_always_present:
  assumes "map_of ai_fieldPatternTable field = None"
    and "field \<notin> set objectPrototypeNames"
  shows "getFieldPatterns field = [rxi (Star Dot)]
     \<and> ai_fieldFound text field
     \<and> (\<forall>a docType pat.
          find (\<lambda>p. patDocumentType p = docType) (map snd (documentPatterns a)) = Some pat
            \<and> field \<in> set (patRequiredFields pat)
          \<longrightarrow> field \<in> set (presentRequired (ai_analyzeFieldCompleteness a text docType))
            \<and> field \<notin> set (missingRequired (ai_analyzeFieldCompleteness a text docType)))"
proof -
  have pats: "getFieldPatterns field = [rxi (Star Dot)]"
    using assms(1) by (simp add: getFieldPatterns_def)
  have found: "ai_fieldFound text field"
    by (simp add: ai_fieldFound_def pats test_catch_all)
  have "field \<in> set (presentRequired (ai_analyzeFieldCompleteness a text docType))
            \<and> field \<notin> set (missingRequired (ai_analyzeFieldCompleteness a text docType))"
    if "find (\<lambda>p. patDocumentType p = docType) (map snd (documentPatterns a)) = Some pat"
      and "field \<in> set (patRequiredFields pat)" for a docType pat
    using that found by (simp add: ai_completeness_found)
  with pats found show ?thesis by blast
qed

theorem C9_unlisted_field_always_present_witness:
  "map_of ai_fieldPatternTable ''irrevocableDate'' = None
   \<and> ''irrevocableDate'' \<notin> set objectPrototypeNames
   \<and> find (\<lambda>p. patDocumentType p = ''Agreement of Purchase and Sale (APS)'')
        (map snd (documentPatterns newAnalyzer)) = Some ai_apsPattern
   \<and> ''irrevocableDate'' \<in> set (patRequiredFields ai_apsPattern)
   \<and> ai_fieldFound [] ''irrevocableDate''
   \<and> ''irrevocableDate'' \<in> set (presentRequired
        (ai_analyzeFieldCompleteness newAnalyzer [] ''Agreement of Purchase and Sale (APS)''))
   \<and> ''irrevocableDate'' \<notin> set (missingRequired
        (ai_analyzeFieldCompleteness newAnalyzer [] ''Agreement of Purchase and Sale (APS)''))"
proof -
  have h: "map_of ai_fieldPatternTable ''irrevocableDate'' = None"
    by code_simp
  have n: "''irrevocableDate'' \<notin> set objectPrototypeNames"
    by code_simp
  have f: "find (\<lambda>p. patDocumentType p = ''Agreement of Purchase and Sale (APS)'')
        (map snd (documentPatterns newAnalyzer)) = Some ai_apsPattern"
    by (simp add: newAnalyzer_def initializeDocumentDatabase_def ai_apsPattern_def)
  have m: "''irrevocableDate'' \<in> set (patRequiredFields ai_apsPattern)"
    by (simp add: ai_apsPattern_def)
  from C9_unlisted_field_always_present [OF h n, of "[]"] f m h n show ?thesis
    by blast
qed

text \<open>
  C10. Whenever the dates that \<open>/\d{1,2}\/\d{1,2}\/\d{4}/g\<close> finds in the text include
  one that \<open>Date\<close> parses to a time before now, \<open>isDocumentExpired\<close> returns true, and
  \<open>analyzeValidity\<close> records the issue \<open>Document appears to be expired\<close>, takes 30 from
  the score (besides the 20 and 10 of the two other checks) and reports the status
  \<open>Invalid\<close>. What kind of date it is plays no part.
\<close>

theorem C10_past_date_marks_expired:
  assumes "matchGlobal (rxg slashDate) text = Some dates"
    and "d \<in> set dates"
    and "parseDate env d = Some t"
    and "t < now env"
  shows "ai_isDocumentExpired env text
     \<and> ''Document appears to be expired'' \<in> set (issues (ai_analyzeValidity env text docType))
     \<and> score (ai_analyzeValidity env text docType)
         = 100 - 30 - (if ai_hasMissingSignatures text then 20 else 0)
               - (if ai_hasIncompleteSections text then 10 else 0)
     \<and> status (ai_analyzeValidity env text docType) = ''Invalid''"
proof -
  have "case parseDate env d of None \<Rightarrow> False | Some t \<Rightarrow> t < now env"
    using assms(3,4) by simp
  with assms(2) have "\<exists>dateStr \<in> set dates. case parseDate env dateStr of None \<Rightarrow> False | Some t \<Rightarrow> t < now env"
    by blast
  then have expired: "ai_isDocumentExpired env text"
    using assms(1) by (simp add: ai_isDocumentExpired_def list_ex_iff)
  then show ?thesis
    by (simp add: ai_analyzeValidity_def Let_def)
qed

theorem C10_past_date_marks_expired_witness:
  "matchGlobal (rxg slashDate) ''Signed on 01/01/2023'' = Some [''01/01/2023'']
   \<and> parseDate sampleEnv ''01/01/2023'' = Some 1672549200000
   \<and> 1672549200000 < now sampleEnv
   \<and> ai_isDocumentExpired sampleEnv ''Signed on 01/01/2023''
   \<and> ''Document appears to be expired''
        \<in> set (issues (ai_analyzeValidity sampleEnv ''Signed on 01/01/2023'' ''Residential Lease Agreement''))
   \<and> score (ai_analyzeValidity sampleEnv ''Signed on 01/01/2023'' ''Residential Lease Agreement'') = 70
   \<and> status (ai_analyzeValidity sampleEnv ''Signed on 01/01/2023'' ''Residential Lease Agreement'') = ''Invalid''"
proof -
  have m: "matchGlobal (rxg slashDate) ''Signed on 01/01/2023'' = Some [''01/01/2023'']"
    by code_simp
  have p: "parseDate sampleEnv ''01/01/2023'' = Some 1672549200000"
    by (simp add: sampleEnv_def)
  have n: "1672549200000 < now sampleEnv"
    by (simp add: sampleEnv_def)
  have sg: "\<not> ai_hasMissingSignatures ''Signed on 01/01/2023''" by code_simp
  have ic: "\<not> ai_hasIncompleteSections ''Signed on 01/01/2023''" by code_simp
  from C10_past_date_marks_expired [OF m _ p n, of "''Residential Lease Agreement''"] m p n sg ic
  show ?thesis by simp
qed

end
